theory Spec2Isabelle
  imports Main "HOL-Library.Sublist"
begin

section \<open>The external world: commands, results, the log of a run\<close>

text \<open>
  Both scripts (\<^verbatim>\<open>SVNMerge.py\<close>, the strict variant, and
  \<^verbatim>\<open>SVMMergeWithTortoise.py\<close>, the interactive variant) drive external processes
  through \<^verbatim>\<open>subprocess.run\<close>. A command is its argument vector. What the external
  process answers is not decided by the scripts: it is a parameter of the model, the
  \<open>world\<close>, which may answer a command differently depending on everything that
  happened before (the log).
\<close>

type_synonym command = "string list"

text \<open>
  The answer of one \<^verbatim>\<open>subprocess.run\<close>: the process ran and exited with a return code
  and its two output streams, or the executable could not be started
  (\<^verbatim>\<open>FileNotFoundError\<close>).
\<close>

datatype proc_result = Exited int string string | NotFound

text \<open>
  The exceptions that occur in the scripts. \<^verbatim>\<open>SystemExit\<close> (raised by
  \<^verbatim>\<open>sys.exit\<close>) derives from \<^verbatim>\<open>BaseException\<close> only, so an
  \<^verbatim>\<open>except Exception\<close> clause does not catch it; the other three derive from
  \<^verbatim>\<open>Exception\<close>.
\<close>

datatype exn =
    RuntimeError string
  | CalledProcessError command int string string
  | FileNotFoundError
  | SystemExit int

fun is_Exception :: "exn \<Rightarrow> bool" where
  "is_Exception (SystemExit n) = False"
| "is_Exception e = True"

text \<open>A revision of the configuration: a JSON integer or a JSON string.\<close>

datatype revision = RevInt int | RevStr string

text \<open>Every \<^verbatim>\<open>print\<close> statement of the two scripts, with the values it interpolates.\<close>

datatype message =
    Msg_config_not_found
  | Msg_config_parse_error
  | Msg_switching string
  | Msg_updating
  | Msg_reverting
  | Msg_merging string string
  | Msg_invalid_config
  | Msg_merged revision
  | Msg_merge_failed revision exn
  | Msg_reverting_all
  | Msg_all_processed
  | Msg_error exn
  | Msg_launching_tool
  | Msg_please_resolve
  | Msg_tool_not_found
  | Msg_tool_error exn
  | Msg_conflict string exn
  | Msg_launching_for_conflict

text \<open>
  The log of a run, in order: what was printed, and which command was run in which
  working directory (\<^verbatim>\<open>cwd\<close>) with which answer.
\<close>

datatype event = Print message | Run command "string option" proc_result

type_synonym log = "event list"

type_synonym world = "log \<Rightarrow> command \<Rightarrow> string option \<Rightarrow> proc_result"

section \<open>Python's string functions used by the scripts\<close>

text \<open>\<^verbatim>\<open>str(n)\<close> for an integer: decimal digits, with a minus sign when negative.\<close>

definition digit_char :: "nat \<Rightarrow> char" where
  "digit_char d = ''0123456789'' ! d"

function str_nat :: "nat \<Rightarrow> string" where
  "str_nat n = (if n < 10 then [digit_char n] else str_nat (n div 10) @ [digit_char (n mod 10)])"
  by pat_completeness auto
termination
  by (relation "measure id") auto

declare str_nat.simps [simp del]

definition str_int :: "int \<Rightarrow> string" where
  "str_int i = (if i < 0 then CHR ''-'' # str_nat (nat (- i)) else str_nat (nat i))"

text \<open>\<^verbatim>\<open>str(revision)\<close>: the decimal form of an integer, a string unchanged.\<close>

fun str_revision :: "revision \<Rightarrow> string" where
  "str_revision (RevInt i) = str_int i"
| "str_revision (RevStr s) = s"

text \<open>\<^verbatim>\<open>' '.join(command)\<close>.\<close>

fun join_spaces :: "string list \<Rightarrow> string" where
  "join_spaces [] = []"
| "join_spaces [x] = x"
| "join_spaces (x # y # ys) = x @ CHR '' '' # join_spaces (y # ys)"

text \<open>
  \<^verbatim>\<open>s.strip()\<close>: leading and trailing whitespace removed. A character of the model
  is a code point below 256. Among these, \<^verbatim>\<open>str.isspace\<close> holds for tab, line feed,
  vertical tab, form feed, carriage return (0x09 to 0x0D), the four separators 0x1C to
  0x1F, the space, the next-line control 0x85 and the no-break space 0xA0.
\<close>

definition isspace :: "char \<Rightarrow> bool" where
  "isspace c = (c \<in> set [CHR 0x09, CHR 0x0A, CHR 0x0B, CHR 0x0C, CHR 0x0D,
                          CHR 0x1C, CHR 0x1D, CHR 0x1E, CHR 0x1F, CHR 0x20,
                          CHR 0x85, CHR 0xA0])"

definition strip :: "string \<Rightarrow> string" where
  "strip s = rev (dropWhile isspace (rev (dropWhile isspace s)))"

section \<open>The functions shared by both scripts\<close>

text \<open>
  \<^verbatim>\<open>subprocess.run(command, cwd=cwd, ..., check=True)\<close>: the world answers, the
  invocation is logged; a missing executable raises \<^verbatim>\<open>FileNotFoundError\<close>, a non-zero
  return code raises \<^verbatim>\<open>CalledProcessError\<close>, otherwise the captured standard output
  is returned.
\<close>

definition subprocess_run :: "world \<Rightarrow> command \<Rightarrow> string option \<Rightarrow> log \<Rightarrow> (exn + string) \<times> log" where
  "subprocess_run w command cwd l =
     (let res = w l command cwd; l' = l @ [Run command cwd res] in
      case res of
        NotFound \<Rightarrow> (Inl FileNotFoundError, l')
      | Exited rc out err \<Rightarrow>
          if rc \<noteq> 0 then (Inl (CalledProcessError command rc out err), l')
          else (Inr out, l'))"

text \<open>The message of the \<^verbatim>\<open>RuntimeError\<close> that \<^verbatim>\<open>run_command\<close> raises (lines 32 to 37).\<close>

definition error_message :: "command \<Rightarrow> int \<Rightarrow> string \<Rightarrow> string \<Rightarrow> string" where
  "error_message command returncode out err =
     ''Command failed: '' @ join_spaces command @ [CHR 0x0A] @
     ''Return code: '' @ str_int returncode @ [CHR 0x0A] @
     ''Output: '' @ strip out @ [CHR 0x0A] @
     ''Error: '' @ strip err"

text \<open>
  \<^verbatim>\<open>run_command\<close>: only \<^verbatim>\<open>CalledProcessError\<close> is caught and turned into a
  \<^verbatim>\<open>RuntimeError\<close>; any other exception of \<^verbatim>\<open>subprocess.run\<close> propagates.
\<close>

definition run_command :: "world \<Rightarrow> command \<Rightarrow> string option \<Rightarrow> log \<Rightarrow> (exn + string) \<times> log" where
  "run_command w command cwd l =
     (case subprocess_run w command cwd l of
        (Inr out, l') \<Rightarrow> (Inr (strip out), l')
      | (Inl (CalledProcessError c rc out err), l') \<Rightarrow>
          (Inl (RuntimeError (error_message command rc out err)), l')
      | (Inl e, l') \<Rightarrow> (Inl e, l'))"

text \<open>A statement that discards the value of \<^verbatim>\<open>run_command\<close>.\<close>

definition discard :: "(exn + string) \<times> log \<Rightarrow> (exn + unit) \<times> log" where
  "discard r = (case r of (Inl e, l) \<Rightarrow> (Inl e, l) | (Inr out, l) \<Rightarrow> (Inr (), l))"

definition switch_command :: "string \<Rightarrow> command" where
  "switch_command branch_path = [''svn'', ''switch'', branch_path]"

definition update_command :: command where
  "update_command = [''svn'', ''update'', ''--set-depth'', ''infinity'']"

definition revert_command :: command where
  "revert_command = [''svn'', ''revert'', ''-R'', ''.'']"

definition merge_command :: "string \<Rightarrow> string \<Rightarrow> command" where
  "merge_command revision source_branch =
     [''svn'', ''merge'', ''-c'', revision, source_branch, ''--accept'', ''theirs-full'']"

definition svn_switch :: "world \<Rightarrow> string \<Rightarrow> string \<Rightarrow> log \<Rightarrow> (exn + unit) \<times> log" where
  "svn_switch w branch_path working_dir l =
     discard (run_command w (switch_command branch_path) (Some working_dir)
                (l @ [Print (Msg_switching branch_path)]))"

definition svn_update :: "world \<Rightarrow> string \<Rightarrow> log \<Rightarrow> (exn + unit) \<times> log" where
  "svn_update w working_dir l =
     discard (run_command w update_command (Some working_dir) (l @ [Print Msg_updating]))"

definition svn_revert :: "world \<Rightarrow> string \<Rightarrow> log \<Rightarrow> (exn + unit) \<times> log" where
  "svn_revert w working_dir l =
     discard (run_command w revert_command (Some working_dir) (l @ [Print Msg_reverting]))"

text \<open>
  The configuration file as \<^verbatim>\<open>load_config\<close> finds it: absent, not parsable as JSON,
  or parsed. A parsed configuration gives, for each of the four keys, what
  \<^verbatim>\<open>config.get(key)\<close> returns: \<open>None\<close> when the key is missing, the value otherwise
  (the branches and the directory are strings, the revisions a list).
\<close>

record config =
  get_source_branch :: "string option"
  get_target_branch :: "string option"
  get_working_dir :: "string option"
  get_revisions :: "revision list option"

datatype config_file = Absent | Malformed | Parsed config

definition load_config :: "config_file \<Rightarrow> log \<Rightarrow> (exn + config) \<times> log" where
  "load_config file l =
     (case file of
        Absent \<Rightarrow> (Inl (SystemExit 1), l @ [Print Msg_config_not_found])
      | Malformed \<Rightarrow> (Inl (SystemExit 1), l @ [Print Msg_config_parse_error])
      | Parsed config \<Rightarrow> (Inr config, l))"

text \<open>Python's truth value of \<^verbatim>\<open>config.get(key)\<close>: \<^verbatim>\<open>None\<close> and the empty string are false.\<close>

fun truthy :: "string option \<Rightarrow> bool" where
  "truthy None = False"
| "truthy (Some s) = (s \<noteq> [])"

text \<open>\<^verbatim>\<open>config.get("revisions", [])\<close>.\<close>

definition revisions_of :: "config \<Rightarrow> revision list" where
  "revisions_of config = (case get_revisions config of None \<Rightarrow> [] | Some rs \<Rightarrow> rs)"

text \<open>The check of line 77 (line 100 in the interactive variant).\<close>

definition valid_plan :: "config \<Rightarrow> bool" where
  "valid_plan config =
     (truthy (get_source_branch config) \<and> truthy (get_target_branch config) \<and>
      truthy (get_working_dir config) \<and> revisions_of config \<noteq> [])"

text \<open>
  The exit status of the process: 0 when \<^verbatim>\<open>main\<close> returns, the argument of
  \<^verbatim>\<open>sys.exit\<close>, and 1 when an exception is not caught.
\<close>

definition exit_status :: "exn + unit \<Rightarrow> int" where
  "exit_status r = (case r of Inr u \<Rightarrow> 0 | Inl (SystemExit n) \<Rightarrow> n | Inl e \<Rightarrow> 1)"

section \<open>The strict variant\<close>

text \<open>\<^verbatim>\<open>svn_merge\<close> of \<^verbatim>\<open>SVNMerge.py\<close> (lines 55 to 61).\<close>

definition svn_merge :: "world \<Rightarrow> string \<Rightarrow> string \<Rightarrow> string \<Rightarrow> log \<Rightarrow> (exn + unit) \<times> log" where
  "svn_merge w revision source_branch working_dir l =
     discard (run_command w (merge_command revision source_branch) (Some working_dir)
                (l @ [Print (Msg_merging revision source_branch)]))"

text \<open>
  The handler of a failure (lines 93 to 95 and 101 to 103): revert, then
  \<^verbatim>\<open>sys.exit(1)\<close>. When the revert raises, that exception leaves the handler.
\<close>

definition revert_and_exit :: "world \<Rightarrow> string \<Rightarrow> log \<Rightarrow> (exn + unit) \<times> log" where
  "revert_and_exit w working_dir l =
     (case svn_revert w working_dir l of
        (Inl e, l') \<Rightarrow> (Inl e, l')
      | (Inr u, l') \<Rightarrow> (Inl (SystemExit 1), l'))"

text \<open>The loop over the revisions (lines 87 to 95), with its inner \<^verbatim>\<open>try\<close>.\<close>

fun merge_loop :: "world \<Rightarrow> string \<Rightarrow> string \<Rightarrow> revision list \<Rightarrow> log \<Rightarrow> (exn + unit) \<times> log" where
  "merge_loop w source_branch working_dir [] l = (Inr (), l)"
| "merge_loop w source_branch working_dir (revision # revisions) l =
     (case svn_merge w (str_revision revision) source_branch working_dir l of
        (Inr u, l1) \<Rightarrow>
          merge_loop w source_branch working_dir revisions (l1 @ [Print (Msg_merged revision)])
      | (Inl e, l1) \<Rightarrow>
          if is_Exception e then
            revert_and_exit w working_dir
              (l1 @ [Print (Msg_merge_failed revision e), Print Msg_reverting_all])
          else (Inl e, l1))"

text \<open>The body of the outer \<^verbatim>\<open>try\<close> (lines 83 to 97).\<close>

definition try_body :: "world \<Rightarrow> string \<Rightarrow> string \<Rightarrow> string \<Rightarrow> revision list \<Rightarrow> log \<Rightarrow> (exn + unit) \<times> log" where
  "try_body w source_branch target_branch working_dir revisions l =
     (case svn_switch w target_branch working_dir l of
        (Inl e, l1) \<Rightarrow> (Inl e, l1)
      | (Inr u, l1) \<Rightarrow>
     (case svn_update w working_dir l1 of
        (Inl e, l2) \<Rightarrow> (Inl e, l2)
      | (Inr u, l2) \<Rightarrow>
     (case merge_loop w source_branch working_dir revisions l2 of
        (Inl e, l3) \<Rightarrow> (Inl e, l3)
      | (Inr u, l3) \<Rightarrow> (Inr (), l3 @ [Print Msg_all_processed]))))"

text \<open>The outer \<^verbatim>\<open>try\<close> with its handler (lines 82 to 103).\<close>

definition run :: "world \<Rightarrow> string \<Rightarrow> string \<Rightarrow> string \<Rightarrow> revision list \<Rightarrow> log \<Rightarrow> (exn + unit) \<times> log" where
  "run w source_branch target_branch working_dir revisions l =
     (case try_body w source_branch target_branch working_dir revisions l of
        (Inr u, l1) \<Rightarrow> (Inr (), l1)
      | (Inl e, l1) \<Rightarrow>
          if is_Exception e then
            revert_and_exit w working_dir (l1 @ [Print (Msg_error e), Print Msg_reverting_all])
          else (Inl e, l1))"

text \<open>\<^verbatim>\<open>main\<close> of \<^verbatim>\<open>SVNMerge.py\<close> (lines 63 to 103).\<close>

definition main :: "world \<Rightarrow> config_file \<Rightarrow> (exn + unit) \<times> log" where
  "main w file =
     (case load_config file [] of
        (Inl e, l) \<Rightarrow> (Inl e, l)
      | (Inr config, l) \<Rightarrow>
          if \<not> valid_plan config
          then (Inl (SystemExit 1), l @ [Print Msg_invalid_config])
          else run w (the (get_source_branch config)) (the (get_target_branch config))
                 (the (get_working_dir config)) (revisions_of config) l)"

section \<open>The interactive variant\<close>

text \<open>\<^verbatim>\<open>existWithError\<close> (lines 55 to 58).\<close>

definition existWithError :: "world \<Rightarrow> string \<Rightarrow> log \<Rightarrow> (exn + unit) \<times> log" where
  "existWithError w working_dir l =
     (case svn_revert w working_dir l of
        (Inl e, l') \<Rightarrow> (Inl e, l')
      | (Inr u, l') \<Rightarrow> (Inl (SystemExit 1), l'))"

definition tortoise_command :: "string \<Rightarrow> command" where
  "tortoise_command working_dir =
     [''TortoiseProc.exe'', ''/command:resolve'', ''/path:'' @ working_dir]"

text \<open>
  \<^verbatim>\<open>svn_resolve_with_tortoise\<close> (lines 60 to 72). The tool is run without a working
  directory and with \<^verbatim>\<open>check=True\<close>; its streams are not captured, and nothing
  reads the stream fields of its exception.
\<close>

definition svn_resolve_with_tortoise :: "world \<Rightarrow> string \<Rightarrow> log \<Rightarrow> (exn + unit) \<times> log" where
  "svn_resolve_with_tortoise w working_dir l =
     (case subprocess_run w (tortoise_command working_dir) None (l @ [Print Msg_launching_tool]) of
        (Inr out, l1) \<Rightarrow> (Inr (), l1 @ [Print Msg_please_resolve])
      | (Inl FileNotFoundError, l1) \<Rightarrow>
          existWithError w working_dir (l1 @ [Print Msg_tool_not_found])
      | (Inl (CalledProcessError c rc out err), l1) \<Rightarrow>
          existWithError w working_dir
            (l1 @ [Print (Msg_tool_error (CalledProcessError c rc out err))])
      | (Inl e, l1) \<Rightarrow> (Inl e, l1))"

text \<open>\<^verbatim>\<open>svn_merge\<close> of \<^verbatim>\<open>SVMMergeWithTortoise.py\<close> (lines 74 to 84).\<close>

definition svn_merge_tortoise :: "world \<Rightarrow> string \<Rightarrow> string \<Rightarrow> string \<Rightarrow> log \<Rightarrow> (exn + unit) \<times> log" where
  "svn_merge_tortoise w revision source_branch working_dir l =
     (case run_command w (merge_command revision source_branch) (Some working_dir)
             (l @ [Print (Msg_merging revision source_branch)]) of
        (Inr out, l1) \<Rightarrow> (Inr (), l1)
      | (Inl (RuntimeError m), l1) \<Rightarrow>
          svn_resolve_with_tortoise w working_dir
            (l1 @ [Print (Msg_conflict revision (RuntimeError m)), Print Msg_launching_for_conflict])
      | (Inl e, l1) \<Rightarrow> (Inl e, l1))"

text \<open>The loop over the revisions (lines 110 to 117).\<close>

fun merge_loop_tortoise :: "world \<Rightarrow> string \<Rightarrow> string \<Rightarrow> revision list \<Rightarrow> log \<Rightarrow> (exn + unit) \<times> log" where
  "merge_loop_tortoise w source_branch working_dir [] l = (Inr (), l)"
| "merge_loop_tortoise w source_branch working_dir (revision # revisions) l =
     (case svn_merge_tortoise w (str_revision revision) source_branch working_dir l of
        (Inr u, l1) \<Rightarrow>
          merge_loop_tortoise w source_branch working_dir revisions
            (l1 @ [Print (Msg_merged revision)])
      | (Inl e, l1) \<Rightarrow>
          if is_Exception e then
            existWithError w working_dir
              (l1 @ [Print (Msg_merge_failed revision e), Print Msg_reverting_all])
          else (Inl e, l1))"

text \<open>The body of the outer \<^verbatim>\<open>try\<close> (lines 106 to 119).\<close>

definition try_body_tortoise :: "world \<Rightarrow> string \<Rightarrow> string \<Rightarrow> string \<Rightarrow> revision list \<Rightarrow> log \<Rightarrow> (exn + unit) \<times> log" where
  "try_body_tortoise w source_branch target_branch working_dir revisions l =
     (case svn_switch w target_branch working_dir l of
        (Inl e, l1) \<Rightarrow> (Inl e, l1)
      | (Inr u, l1) \<Rightarrow>
     (case svn_update w working_dir l1 of
        (Inl e, l2) \<Rightarrow> (Inl e, l2)
      | (Inr u, l2) \<Rightarrow>
     (case merge_loop_tortoise w source_branch working_dir revisions l2 of
        (Inl e, l3) \<Rightarrow> (Inl e, l3)
      | (Inr u, l3) \<Rightarrow> (Inr (), l3 @ [Print Msg_all_processed]))))"

text \<open>The outer \<^verbatim>\<open>try\<close> with its handler (lines 105 to 124).\<close>

definition run_tortoise :: "world \<Rightarrow> string \<Rightarrow> string \<Rightarrow> string \<Rightarrow> revision list \<Rightarrow> log \<Rightarrow> (exn + unit) \<times> log" where
  "run_tortoise w source_branch target_branch working_dir revisions l =
     (case try_body_tortoise w source_branch target_branch working_dir revisions l of
        (Inr u, l1) \<Rightarrow> (Inr (), l1)
      | (Inl e, l1) \<Rightarrow>
          if is_Exception e then
            existWithError w working_dir (l1 @ [Print (Msg_error e), Print Msg_reverting_all])
          else (Inl e, l1))"

text \<open>\<^verbatim>\<open>main\<close> of \<^verbatim>\<open>SVMMergeWithTortoise.py\<close> (lines 86 to 124).\<close>

definition main_tortoise :: "world \<Rightarrow> config_file \<Rightarrow> (exn + unit) \<times> log" where
  "main_tortoise w file =
     (case load_config file [] of
        (Inl e, l) \<Rightarrow> (Inl e, l)
      | (Inr config, l) \<Rightarrow>
          if \<not> valid_plan config
          then (Inl (SystemExit 1), l @ [Print Msg_invalid_config])
          else run_tortoise w (the (get_source_branch config)) (the (get_target_branch config))
                 (the (get_working_dir config)) (revisions_of config) l)"

section \<open>Reading a log\<close>

text \<open>The commands of a log with their answers, in order.\<close>

fun runs :: "log \<Rightarrow> (command \<times> proc_result) list" where
  "runs [] = []"
| "runs (Print m # l) = runs l"
| "runs (Run c d res # l) = (c, res) # runs l"

text \<open>An answer is a success when the process ran and exited with code 0.\<close>

fun ok :: "proc_result \<Rightarrow> bool" where
  "ok (Exited rc out err) = (rc = 0)"
| "ok NotFound = False"

text \<open>An invocation of the revert command, and how often a log has one.\<close>

definition is_revert :: "command \<times> proc_result \<Rightarrow> bool" where
  "is_revert x = (fst x = revert_command)"

definition reverts :: "log \<Rightarrow> nat" where
  "reverts l = length (filter is_revert (runs l))"

text \<open>
  A failed operation: a command other than the revert (a switch, an update, a merge or
  the interactive tool) whose answer is not a success.
\<close>

definition failed :: "command \<times> proc_result \<Rightarrow> bool" where
  "failed x = (fst x \<noteq> revert_command \<and> \<not> ok (snd x))"

definition failed_ops :: "log \<Rightarrow> (command \<times> proc_result) list" where
  "failed_ops l = filter failed (runs l)"

text \<open>The merge commands.\<close>

definition is_merge :: "command \<Rightarrow> bool" where
  "is_merge c = (take 2 c = [''svn'', ''merge''])"

text \<open>The first answer of a list is a success.\<close>

definition first_ok :: "(command \<times> proc_result) list \<Rightarrow> bool" where
  "first_ok R = (case R of [] \<Rightarrow> False | x # xs \<Rightarrow> ok (snd x))"

text \<open>The revert was invoked, and its first invocation succeeded.\<close>

definition first_revert_ok :: "log \<Rightarrow> bool" where
  "first_revert_ok l = first_ok (filter is_revert (runs l))"


text \<open>The exception a failed \<^verbatim>\<open>run_command\<close> raises.\<close>

definition failure :: "command \<Rightarrow> proc_result \<Rightarrow> exn" where
  "failure c res =
     (case res of NotFound \<Rightarrow> FileNotFoundError
      | Exited rc out err \<Rightarrow> RuntimeError (error_message c rc out err))"

text \<open>
  A conflict: a merge command that ran and exited with a non-zero code, which is what the
  interactive variant hands to the tool. A fatal operation is a failed operation that is
  not a conflict.
\<close>

definition conflict :: "command \<times> proc_result \<Rightarrow> bool" where
  "conflict x = (is_merge (fst x) \<and> (case snd x of Exited rc out err \<Rightarrow> rc \<noteq> 0 | NotFound \<Rightarrow> False))"

definition fatal :: "command \<times> proc_result \<Rightarrow> bool" where
  "fatal x = (failed x \<and> \<not> conflict x)"

definition fatal_ops :: "log \<Rightarrow> (command \<times> proc_result) list" where
  "fatal_ops l = filter fatal (runs l)"

text \<open>The merge commands of a log, in order.\<close>

definition merges :: "log \<Rightarrow> command list" where
  "merges l = filter is_merge (map fst (runs l))"

text \<open>
  The commands a valid plan asks for: the switch, the update, then one merge for each
  revision, in the order of the list.
\<close>

definition merge_commands :: "config \<Rightarrow> command list" where
  "merge_commands config =
     map (\<lambda>revision. merge_command (str_revision revision) (the (get_source_branch config)))
       (revisions_of config)"

definition planned_commands :: "config \<Rightarrow> command list" where
  "planned_commands config =
     switch_command (the (get_target_branch config)) # update_command # merge_commands config"

section \<open>The traces of a run\<close>

text \<open>
  The outer \<^verbatim>\<open>except Exception\<close> clause of \<^verbatim>\<open>main\<close>, applied to the outcome of the
  \<^verbatim>\<open>try\<close> body.
\<close>

definition handler :: "world \<Rightarrow> string \<Rightarrow> (exn + unit) \<times> log \<Rightarrow> (exn + unit) \<times> log" where
  "handler w wd x =
     (case x of
        (Inr u, l1) \<Rightarrow> (Inr (), l1)
      | (Inl e, l1) \<Rightarrow>
          if is_Exception e then
            revert_and_exit w wd (l1 @ [Print (Msg_error e), Print Msg_reverting_all])
          else (Inl e, l1))"

text \<open>
  A chain of revert invocations under \<open>n\<close> further handlers: a revert that succeeds is
  followed by \<^verbatim>\<open>sys.exit(1)\<close>; one that fails raises, which the next handler answers
  with another revert; with no handler left the exception is not caught.
\<close>

fun revert_chain :: "nat \<Rightarrow> (command \<times> proc_result) list \<Rightarrow> exn + unit \<Rightarrow> bool" where
  "revert_chain n [] r = False"
| "revert_chain 0 ((c, x) # R) r =
     (c = revert_command \<and> R = [] \<and>
      r = (if ok x then Inl (SystemExit 1) else Inl (failure revert_command x)))"
| "revert_chain (Suc n) ((c, x) # R) r =
     (c = revert_command \<and>
      (if ok x then R = [] \<and> r = Inl (SystemExit 1) else revert_chain n R r))"

text \<open>The commands and answers of the strict loop, and its outcome under the outer handler.\<close>

fun strict_shape :: "string \<Rightarrow> revision list \<Rightarrow> (command \<times> proc_result) list \<Rightarrow> exn + unit \<Rightarrow> bool" where
  "strict_shape src [] R r = (R = [] \<and> r = Inr ())"
| "strict_shape src (revision # revs) [] r = False"
| "strict_shape src (revision # revs) ((c, res) # R) r =
     (c = merge_command (str_revision revision) src \<and>
      (if ok res then strict_shape src revs R r else revert_chain (Suc 0) R r))"

text \<open>The same for the loop of the interactive variant.\<close>

fun tortoise_shape :: "string \<Rightarrow> string \<Rightarrow> revision list \<Rightarrow> (command \<times> proc_result) list \<Rightarrow> exn + unit \<Rightarrow> bool" where
  "tortoise_shape src wd [] R r = (R = [] \<and> r = Inr ())"
| "tortoise_shape src wd (revision # revs) [] r = False"
| "tortoise_shape src wd (revision # revs) ((c, NotFound) # R) r =
     (c = merge_command (str_revision revision) src \<and> revert_chain (Suc 0) R r)"
| "tortoise_shape src wd (revision # revs) ((c, Exited rc out err) # R) r =
     (c = merge_command (str_revision revision) src \<and>
      (if rc = 0 then tortoise_shape src wd revs R r
       else (case R of
               [] \<Rightarrow> False
             | (c2, x2) # R2 \<Rightarrow>
                 c2 = tortoise_command wd \<and>
                 (if ok x2 then tortoise_shape src wd revs R2 r else revert_chain (Suc (Suc 0)) R2 r))))"

text \<open>The commands and answers of a whole run: the switch, the update, then the loop.\<close>

fun run_shape :: "((command \<times> proc_result) list \<Rightarrow> exn + unit \<Rightarrow> bool) \<Rightarrow> string \<Rightarrow> (command \<times> proc_result) list \<Rightarrow> exn + unit \<Rightarrow> bool" where
  "run_shape loop tgt ((c1, x1) # (c2, x2) # R) r =
     (c1 = switch_command tgt \<and>
      (if ok x1 then
         c2 = update_command \<and> (if ok x2 then loop R r else revert_chain 0 R r)
       else revert_chain 0 ((c2, x2) # R) r))"
| "run_shape loop tgt R r = False"

section \<open>Example plans and worlds\<close>

text \<open>The plan of the scenarios: two revisions of a feature branch merged into the trunk.\<close>

definition plan_example :: config where
  "plan_example =
     \<lparr>get_source_branch = Some ''/branches/feature'', get_target_branch = Some ''/trunk'',
      get_working_dir = Some ''/wc'', get_revisions = Some [RevInt 42, RevInt 43]\<rparr>"

text \<open>A configuration without the key \<^verbatim>\<open>source_branch\<close>.\<close>

definition plan_no_source :: config where
  "plan_no_source =
     \<lparr>get_source_branch = None, get_target_branch = Some ''/trunk'',
      get_working_dir = Some ''/wc'', get_revisions = Some [RevInt 42, RevInt 43]\<rparr>"

text \<open>A world where every command succeeds.\<close>

definition world_ok :: world where
  "world_ok l c d = Exited 0 ''done'' []"

text \<open>A world where the merge of revision 43 exits with code 1 and everything else succeeds.\<close>

definition world_conflict :: world where
  "world_conflict l c d =
     (if c = merge_command ''43'' ''/branches/feature'' then Exited 1 [] ''conflict''
      else Exited 0 ''done'' [])"

text \<open>
  A world where the merge of revision 43 exits with code 1 and every revert fails (the
  working copy is locked).
\<close>

definition world_locked :: world where
  "world_locked l c d =
     (if c = merge_command ''43'' ''/branches/feature'' then Exited 1 [] ''conflict''
      else if c = revert_command then Exited 1 [] ''locked''
      else Exited 0 ''done'' [])"

text \<open>
  A world where the merge of revision 43 exits with code 1 and the interactive tool is not
  installed.
\<close>

definition world_tool_missing :: world where
  "world_tool_missing l c d =
     (if c = merge_command ''43'' ''/branches/feature'' then Exited 1 [] ''conflict''
      else if c = tortoise_command ''/wc'' then NotFound
      else Exited 0 ''done'' [])"

text \<open>
  A world where the merge of revision 43 cannot be started at all (for instance the
  working directory is gone), so that \<^verbatim>\<open>subprocess.run\<close> raises
  \<^verbatim>\<open>FileNotFoundError\<close>.
\<close>

definition world_merge_not_started :: world where
  "world_merge_not_started l c d =
     (if c = merge_command ''43'' ''/branches/feature'' then NotFound else Exited 0 ''done'' [])"



text \<open>A plan whose revisions are neither sorted nor distinct.\<close>

definition plan_unsorted :: config where
  "plan_unsorted =
     \<lparr>get_source_branch = Some ''/branches/feature'', get_target_branch = Some ''/trunk'',
      get_working_dir = Some ''/wc'',
      get_revisions = Some [RevInt 105, RevInt 101, RevStr ''103'', RevInt 101]\<rparr>"

section \<open>Basic facts\<close>

lemma is_Exception_failure [simp]: "is_Exception (failure c res)"
  by (simp add: failure_def split: proc_result.splits)

lemma run_command_unit:
  "discard (run_command w c d l) =
     (if ok (w l c d) then Inr () else Inl (failure c (w l c d)), l @ [Run c d (w l c d)])"
  by (simp add: discard_def run_command_def subprocess_run_def failure_def Let_def
      split: proc_result.splits)

lemma run_command_eq:
  "run_command w c d l =
     (case w l c d of
        NotFound \<Rightarrow> Inl FileNotFoundError
      | Exited rc out err \<Rightarrow>
          if rc \<noteq> 0 then Inl (RuntimeError (error_message c rc out err)) else Inr (strip out),
      l @ [Run c d (w l c d)])"
  by (simp add: run_command_def subprocess_run_def Let_def split: proc_result.splits)

lemma runs_append [simp]: "runs (a @ b) = runs a @ runs b"
  by (induction a rule: runs.induct) simp_all

lemma revert_and_exit_eq:
  "revert_and_exit w wd l =
     (if ok (w (l @ [Print Msg_reverting]) revert_command (Some wd)) then Inl (SystemExit 1)
      else Inl (failure revert_command (w (l @ [Print Msg_reverting]) revert_command (Some wd))),
      l @ [Print Msg_reverting,
           Run revert_command (Some wd) (w (l @ [Print Msg_reverting]) revert_command (Some wd))])"
  by (simp add: revert_and_exit_def svn_revert_def run_command_unit)

lemma existWithError_eq: "existWithError = revert_and_exit"
  by (rule ext)+ (simp add: existWithError_def revert_and_exit_def)

lemma command_facts [simp]:
  "merge_command a b \<noteq> revert_command"
  "switch_command t \<noteq> revert_command"
  "update_command \<noteq> revert_command"
  "tortoise_command d \<noteq> revert_command"
  "tortoise_command d \<noteq> merge_command a b"
  "tortoise_command d \<noteq> switch_command t"
  "tortoise_command d \<noteq> update_command"
  "is_merge (merge_command a b)"
  "\<not> is_merge revert_command"
  "\<not> is_merge (switch_command t)"
  "\<not> is_merge update_command"
  "\<not> is_merge (tortoise_command d)"
  by (simp_all add: merge_command_def revert_command_def switch_command_def update_command_def
      tortoise_command_def is_merge_def)

lemmas command_facts_sym [simp] = command_facts(1-7) [THEN not_sym]

lemma exit_status_failure [simp]: "exit_status (Inl (failure c x)) = 1"
  by (simp add: exit_status_def failure_def split: proc_result.splits)

lemma exit_status_simps [simp]:
  "exit_status (Inl (SystemExit n)) = n" "exit_status (Inr u) = 0"
  by (simp_all add: exit_status_def)

lemma failure_neq [simp]: "failure c x \<noteq> SystemExit n"
  by (simp add: failure_def split: proc_result.splits)

lemma failed_pair [simp]: "failed (c, x) = (c \<noteq> revert_command \<and> \<not> ok x)"
  by (simp add: failed_def)

lemma is_revert_pair [simp]: "is_revert (c, x) = (c = revert_command)"
  by (simp add: is_revert_def)

lemma first_ok_simps [simp]: "first_ok [] = False" "first_ok (y # ys) = ok (snd y)"
  by (simp_all add: first_ok_def)

lemma conflict_pair [simp]:
  "conflict (c, Exited rc out err) = (is_merge c \<and> rc \<noteq> 0)"
  "conflict (c, NotFound) = False"
  by (simp_all add: conflict_def)

lemma conflict_not_merge [simp]: "\<not> is_merge c \<Longrightarrow> conflict (c, x) = False"
  by (simp add: conflict_def)

lemma fatal_pair [simp]: "fatal (c, x) = (failed (c, x) \<and> \<not> conflict (c, x))"
  by (simp add: fatal_def)

section \<open>Every run has the shape of its variant\<close>

lemma handler_revert_shape:
  "handler w wd (revert_and_exit w wd l) = (r, l') \<Longrightarrow>
     \<exists>R. runs l' = runs l @ R \<and> revert_chain (Suc 0) R r"
  by (auto simp: handler_def revert_and_exit_def svn_revert_def run_command_unit split: if_splits)

lemma handler_failure_shape:
  "handler w wd (Inl (failure c res), l) = (r, l') \<Longrightarrow>
     \<exists>R. runs l' = runs l @ R \<and> revert_chain 0 R r"
  by (auto simp: handler_def revert_and_exit_def svn_revert_def run_command_unit split: if_splits)

lemma handler_after_print:
  "handler w wd (case x of (Inl e, l3) \<Rightarrow> (Inl e, l3) | (Inr u, l3) \<Rightarrow> (Inr (), l3 @ [Print m])) = (r, l')
   \<Longrightarrow> \<exists>l0. handler w wd x = (r, l0) \<and> runs l' = runs l0"
  by (cases x) (auto simp: handler_def split: sum.splits if_splits)

lemma run_eq_handler:
  "run w src tgt wd revs l = handler w wd (try_body w src tgt wd revs l)"
  by (simp add: run_def handler_def)

lemma run_tortoise_eq_handler:
  "run_tortoise w src tgt wd revs l = handler w wd (try_body_tortoise w src tgt wd revs l)"
  by (simp add: run_tortoise_def handler_def existWithError_eq split: prod.splits sum.splits)

lemma strict_loop_shape:
  "handler w wd (merge_loop w src wd revs l) = (r, l') \<Longrightarrow>
     \<exists>R. runs l' = runs l @ R \<and> strict_shape src revs R r"
proof (induction revs arbitrary: l)
  case Nil
  then show ?case by (auto simp: handler_def)
next
  case (Cons revision revs)
  let ?l0 = "l @ [Print (Msg_merging (str_revision revision) src)]"
  let ?c = "merge_command (str_revision revision) src"
  let ?res = "w ?l0 ?c (Some wd)"
  let ?l1 = "?l0 @ [Run ?c (Some wd) ?res]"
  show ?case
  proof (cases "ok ?res")
    case True
    with Cons.prems have "handler w wd (merge_loop w src wd revs (?l1 @ [Print (Msg_merged revision)])) = (r, l')"
      by (simp add: svn_merge_def run_command_unit)
    from Cons.IH [OF this] obtain R where
      "runs l' = runs (?l1 @ [Print (Msg_merged revision)]) @ R" "strict_shape src revs R r"
      by blast
    with True have "runs l' = runs l @ ((?c, ?res) # R) \<and> strict_shape src (revision # revs) ((?c, ?res) # R) r"
      by simp
    then show ?thesis by blast
  next
    case False
    with Cons.prems have
      "handler w wd (revert_and_exit w wd
         (?l1 @ [Print (Msg_merge_failed revision (failure ?c ?res)), Print Msg_reverting_all])) = (r, l')"
      by (simp add: svn_merge_def run_command_unit)
    from handler_revert_shape [OF this] obtain R where
      "runs l' = runs l @ (?c, ?res) # R" "revert_chain (Suc 0) R r"
      by auto
    with False have "runs l' = runs l @ ((?c, ?res) # R) \<and> strict_shape src (revision # revs) ((?c, ?res) # R) r"
      by simp
    then show ?thesis by blast
  qed
qed

lemma tortoise_loop_shape:
  "handler w wd (merge_loop_tortoise w src wd revs l) = (r, l') \<Longrightarrow>
     \<exists>R. runs l' = runs l @ R \<and> tortoise_shape src wd revs R r"
proof (induction revs arbitrary: l)
  case Nil
  then show ?case by (auto simp: handler_def)
next
  case (Cons revision revs)
  let ?l0 = "l @ [Print (Msg_merging (str_revision revision) src)]"
  let ?c = "merge_command (str_revision revision) src"
  let ?res = "w ?l0 ?c (Some wd)"
  let ?l1 = "?l0 @ [Run ?c (Some wd) ?res]"
  show ?case
  proof (cases ?res)
    case NotFound
    with Cons.prems have
      "handler w wd (revert_and_exit w wd
         (?l1 @ [Print (Msg_merge_failed revision FileNotFoundError), Print Msg_reverting_all])) = (r, l')"
      by (simp add: svn_merge_tortoise_def run_command_eq existWithError_eq)
    from handler_revert_shape [OF this] obtain R where
      "runs l' = runs l @ (?c, ?res) # R" "revert_chain (Suc 0) R r"
      by auto
    with NotFound have "runs l' = runs l @ ((?c, ?res) # R) \<and>
        tortoise_shape src wd (revision # revs) ((?c, ?res) # R) r"
      by simp
    then show ?thesis by blast
  next
    case (Exited rc out err)
    note res = this
    show ?thesis
    proof (cases "rc = 0")
      case True
      with Cons.prems res have
        "handler w wd (merge_loop_tortoise w src wd revs (?l1 @ [Print (Msg_merged revision)])) = (r, l')"
        by (simp add: svn_merge_tortoise_def run_command_eq)
      from Cons.IH [OF this] obtain R where
        "runs l' = runs (?l1 @ [Print (Msg_merged revision)]) @ R" "tortoise_shape src wd revs R r"
        by blast
      with True res have "runs l' = runs l @ ((?c, ?res) # R) \<and>
          tortoise_shape src wd (revision # revs) ((?c, ?res) # R) r"
        by simp
      then show ?thesis by blast
    next
      case False
      let ?e = "RuntimeError (error_message ?c rc out err)"
      let ?l2 = "?l1 @ [Print (Msg_conflict (str_revision revision) ?e),
                        Print Msg_launching_for_conflict, Print Msg_launching_tool]"
      let ?t = "tortoise_command wd"
      let ?x2 = "w ?l2 ?t None"
      let ?l3 = "?l2 @ [Run ?t None ?x2]"
      show ?thesis
      proof (cases "ok ?x2")
        case True
        then obtain out2 err2 where x2: "?x2 = Exited 0 out2 err2"
          by (cases ?x2) auto
        with Cons.prems res False have
          "handler w wd (merge_loop_tortoise w src wd revs
             (?l3 @ [Print Msg_please_resolve, Print (Msg_merged revision)])) = (r, l')"
          by (simp add: svn_merge_tortoise_def run_command_eq svn_resolve_with_tortoise_def
              subprocess_run_def Let_def)
        from Cons.IH [OF this] obtain R where
          "runs l' = runs (?l3 @ [Print Msg_please_resolve, Print (Msg_merged revision)]) @ R"
          "tortoise_shape src wd revs R r"
          by blast
        with True res False have "runs l' = runs l @ ((?c, ?res) # (?t, ?x2) # R) \<and>
            tortoise_shape src wd (revision # revs) ((?c, ?res) # (?t, ?x2) # R) r"
          by simp
        then show ?thesis by blast
      next
        case x2: False
        obtain m where m: "svn_merge_tortoise w (str_revision revision) src wd l =
            revert_and_exit w wd (?l3 @ [Print m])"
          using res False x2
          by (cases ?x2)
             (simp_all add: svn_merge_tortoise_def run_command_eq svn_resolve_with_tortoise_def
                subprocess_run_def Let_def existWithError_eq)
        let ?l4 = "?l3 @ [Print m, Print Msg_reverting]"
        let ?x3 = "w ?l4 revert_command (Some wd)"
        let ?l5 = "?l4 @ [Run revert_command (Some wd) ?x3]"
        show ?thesis
        proof (cases "ok ?x3")
          case True
          with Cons.prems m have "r = Inl (SystemExit 1)" "l' = ?l5"
            by (simp_all add: revert_and_exit_eq handler_def)
          with True res False x2 have
            "runs l' = runs l @ ((?c, ?res) # (?t, ?x2) # [(revert_command, ?x3)]) \<and>
             tortoise_shape src wd (revision # revs) ((?c, ?res) # (?t, ?x2) # [(revert_command, ?x3)]) r"
            by simp
          then show ?thesis by blast
        next
          case x3: False
          with Cons.prems m have "handler w wd (revert_and_exit w wd
              (?l5 @ [Print (Msg_merge_failed revision (failure revert_command ?x3)),
                      Print Msg_reverting_all])) = (r, l')"
            by (simp add: revert_and_exit_eq existWithError_eq)
          from handler_revert_shape [OF this] obtain R where
            "runs l' = runs l @ (?c, ?res) # (?t, ?x2) # (revert_command, ?x3) # R"
            "revert_chain (Suc 0) R r"
            by auto
          with x3 res False x2 have
            "runs l' = runs l @ ((?c, ?res) # (?t, ?x2) # (revert_command, ?x3) # R) \<and>
             tortoise_shape src wd (revision # revs) ((?c, ?res) # (?t, ?x2) # (revert_command, ?x3) # R) r"
            by simp
          then show ?thesis by blast
        qed
      qed
    qed
  qed
qed

lemma body_shape:
  assumes loop: "\<And>l r l'. handler w wd (loopf l) = (r, l') \<Longrightarrow> \<exists>R. runs l' = runs l @ R \<and> shape R r"
    and h: "handler w wd
      (case svn_switch w tgt wd l of
         (Inl e, l1) \<Rightarrow> (Inl e, l1)
       | (Inr u, l1) \<Rightarrow>
      (case svn_update w wd l1 of
         (Inl e, l2) \<Rightarrow> (Inl e, l2)
       | (Inr u, l2) \<Rightarrow>
      (case loopf l2 of
         (Inl e, l3) \<Rightarrow> (Inl e, l3)
       | (Inr u, l3) \<Rightarrow> (Inr (), l3 @ [Print Msg_all_processed])))) = (r, l')"
  shows "\<exists>R. runs l' = runs l @ R \<and> run_shape shape tgt R r"
proof -
  let ?l0 = "l @ [Print (Msg_switching tgt)]"
  let ?x1 = "w ?l0 (switch_command tgt) (Some wd)"
  let ?l1 = "?l0 @ [Run (switch_command tgt) (Some wd) ?x1]"
  let ?l1' = "?l1 @ [Print Msg_updating]"
  let ?x2 = "w ?l1' update_command (Some wd)"
  let ?l2 = "?l1' @ [Run update_command (Some wd) ?x2]"
  show ?thesis
  proof (cases "ok ?x1")
    case False
    with h have "handler w wd (Inl (failure (switch_command tgt) ?x1), ?l1) = (r, l')"
      by (simp add: svn_switch_def run_command_unit)
    from handler_failure_shape [OF this] obtain R where
      R: "runs l' = runs ?l1 @ R" "revert_chain 0 R r" by blast
    then obtain c2 x2 R' where "R = (c2, x2) # R'" by (cases R) auto
    with R False have "runs l' = runs l @ ((switch_command tgt, ?x1) # (c2, x2) # R') \<and>
       run_shape shape tgt ((switch_command tgt, ?x1) # (c2, x2) # R') r"
      by simp
    then show ?thesis by blast
  next
    case True
    note ok1 = this
    show ?thesis
    proof (cases "ok ?x2")
      case False
      with h ok1 have "handler w wd (Inl (failure update_command ?x2), ?l2) = (r, l')"
        by (simp add: svn_switch_def svn_update_def run_command_unit)
      from handler_failure_shape [OF this] obtain R where
        R: "runs l' = runs ?l2 @ R" "revert_chain 0 R r" by blast
      with False ok1 have "runs l' = runs l @ ((switch_command tgt, ?x1) # (update_command, ?x2) # R) \<and>
         run_shape shape tgt ((switch_command tgt, ?x1) # (update_command, ?x2) # R) r"
        by simp
      then show ?thesis by blast
    next
      case True
      with h ok1 have "handler w wd
          (case loopf ?l2 of (Inl e, l3) \<Rightarrow> (Inl e, l3)
           | (Inr u, l3) \<Rightarrow> (Inr (), l3 @ [Print Msg_all_processed])) = (r, l')"
        by (simp add: svn_switch_def svn_update_def run_command_unit)
      from handler_after_print [OF this] obtain l0 where
        l0: "handler w wd (loopf ?l2) = (r, l0)" "runs l' = runs l0" by blast
      from loop [OF l0(1)] obtain R where
        R: "runs l0 = runs ?l2 @ R" "shape R r" by blast
      with l0 True ok1 have "runs l' = runs l @ ((switch_command tgt, ?x1) # (update_command, ?x2) # R) \<and>
         run_shape shape tgt ((switch_command tgt, ?x1) # (update_command, ?x2) # R) r"
        by simp
      then show ?thesis by blast
    qed
  qed
qed

lemma run_has_shape:
  assumes "run w src tgt wd revs l = (r, l')"
  shows "\<exists>R. runs l' = runs l @ R \<and> run_shape (strict_shape src revs) tgt R r"
proof (rule body_shape)
  show "\<And>l r l'. handler w wd (merge_loop w src wd revs l) = (r, l') \<Longrightarrow>
          \<exists>R. runs l' = runs l @ R \<and> strict_shape src revs R r"
    by (rule strict_loop_shape)
  from assms show "handler w wd
      (case svn_switch w tgt wd l of
         (Inl e, l1) \<Rightarrow> (Inl e, l1)
       | (Inr u, l1) \<Rightarrow>
      (case svn_update w wd l1 of
         (Inl e, l2) \<Rightarrow> (Inl e, l2)
       | (Inr u, l2) \<Rightarrow>
      (case merge_loop w src wd revs l2 of
         (Inl e, l3) \<Rightarrow> (Inl e, l3)
       | (Inr u, l3) \<Rightarrow> (Inr (), l3 @ [Print Msg_all_processed])))) = (r, l')"
    by (simp add: run_eq_handler try_body_def)
qed

lemma run_tortoise_has_shape:
  assumes "run_tortoise w src tgt wd revs l = (r, l')"
  shows "\<exists>R. runs l' = runs l @ R \<and> run_shape (tortoise_shape src wd revs) tgt R r"
proof (rule body_shape)
  show "\<And>l r l'. handler w wd (merge_loop_tortoise w src wd revs l) = (r, l') \<Longrightarrow>
          \<exists>R. runs l' = runs l @ R \<and> tortoise_shape src wd revs R r"
    by (rule tortoise_loop_shape)
  from assms show "handler w wd
      (case svn_switch w tgt wd l of
         (Inl e, l1) \<Rightarrow> (Inl e, l1)
       | (Inr u, l1) \<Rightarrow>
      (case svn_update w wd l1 of
         (Inl e, l2) \<Rightarrow> (Inl e, l2)
       | (Inr u, l2) \<Rightarrow>
      (case merge_loop_tortoise w src wd revs l2 of
         (Inl e, l3) \<Rightarrow> (Inl e, l3)
       | (Inr u, l3) \<Rightarrow> (Inr (), l3 @ [Print Msg_all_processed])))) = (r, l')"
    by (simp add: run_tortoise_eq_handler try_body_tortoise_def)
qed

lemma revert_chain_props:
  "revert_chain n R r \<Longrightarrow>
     exit_status r = 1 \<and> R \<noteq> [] \<and> filter failed R = [] \<and> filter is_revert R = R \<and>
     map fst R = replicate (length R) revert_command \<and> length R \<le> Suc n \<and>
     filter (\<lambda>c. is_merge c) (map fst R) = [] \<and>
     (first_ok R \<longrightarrow> length R = 1 \<and> r = Inl (SystemExit 1)) \<and>
     (\<not> first_ok R \<longrightarrow> 0 < n \<longrightarrow> 2 \<le> length R) \<and>
     (list_all (\<lambda>x. \<not> ok (snd x)) R \<longrightarrow> length R = Suc n) \<and>
     fst (last R) = revert_command"
proof (induction n R r rule: revert_chain.induct)
  case (1 n r)
  then show ?case by simp
next
  case (2 c x R r)
  then show ?case by (auto simp: failed_def is_revert_def first_ok_def)
next
  case (3 n c x R r)
  show ?case
  proof (cases "ok x")
    case True
    with 3 show ?thesis by (auto simp: failed_def is_revert_def first_ok_def)
  next
    case False
    with 3 have "revert_chain n R r" by simp
    with 3 False have IH: "exit_status r = 1" "R \<noteq> []" "filter failed R = []"
      "filter is_revert R = R" "map fst R = replicate (length R) revert_command"
      "length R \<le> Suc n" "filter (\<lambda>c. is_merge c) (map fst R) = []"
      "list_all (\<lambda>x. \<not> ok (snd x)) R \<longrightarrow> length R = Suc n"
      "fst (last R) = revert_command"
      by simp_all
    from IH(2) have "1 \<le> length R" by (cases R) simp_all
    with 3 False IH show ?thesis
      by (simp add: failed_def is_revert_def first_ok_def)
  qed
qed

lemma svn_merge_tortoise_runs:
  "\<exists>tail. runs (snd (svn_merge_tortoise w revision src wd l)) =
       runs l @ (merge_command revision src,
                 w (l @ [Print (Msg_merging revision src)]) (merge_command revision src) (Some wd)) # tail \<and>
     filter is_merge (map fst tail) = []"
proof (cases "w (l @ [Print (Msg_merging revision src)]) (merge_command revision src) (Some wd)")
  case NotFound
  then show ?thesis by (simp add: svn_merge_tortoise_def run_command_eq)
next
  case (Exited rc out err)
  show ?thesis
  proof (cases "rc = 0")
    case True
    with Exited show ?thesis by (simp add: svn_merge_tortoise_def run_command_eq)
  next
    case False
    let ?l2 = "l @ [Print (Msg_merging revision src),
        Run (merge_command revision src) (Some wd) (Exited rc out err),
        Print (Msg_conflict revision (RuntimeError (error_message (merge_command revision src) rc out err))),
        Print Msg_launching_for_conflict, Print Msg_launching_tool]"
    from Exited False show ?thesis
      by (cases "w ?l2 (tortoise_command wd) None")
         (simp_all add: svn_merge_tortoise_def run_command_eq svn_resolve_with_tortoise_def
            subprocess_run_def Let_def existWithError_eq revert_and_exit_eq)
  qed
qed

lemma main_shape:
  assumes "valid_plan config" and "main w (Parsed config) = (r, l)"
  shows "run_shape (strict_shape (the (get_source_branch config)) (revisions_of config))
           (the (get_target_branch config)) (runs l) r"
proof -
  from assms have "run w (the (get_source_branch config)) (the (get_target_branch config))
      (the (get_working_dir config)) (revisions_of config) [] = (r, l)"
    by (simp add: main_def load_config_def)
  from run_has_shape [OF this] show ?thesis by simp
qed

lemma main_tortoise_shape:
  assumes "valid_plan config" and "main_tortoise w (Parsed config) = (r, l)"
  shows "run_shape (tortoise_shape (the (get_source_branch config)) (the (get_working_dir config))
             (revisions_of config))
           (the (get_target_branch config)) (runs l) r"
proof -
  from assms have "run_tortoise w (the (get_source_branch config)) (the (get_target_branch config))
      (the (get_working_dir config)) (revisions_of config) [] = (r, l)"
    by (simp add: main_tortoise_def load_config_def)
  from run_tortoise_has_shape [OF this] show ?thesis by simp
qed

lemma run_tortoise_reports:
  "run_tortoise w src tgt wd revs l = (Inr u, l') \<Longrightarrow> last l' = Print Msg_all_processed"
  by (auto simp: run_tortoise_def try_body_tortoise_def existWithError_eq revert_and_exit_eq
      split: prod.splits sum.splits if_splits)

section \<open>What the shapes imply\<close>

lemma revert_chain_not_fatal: "revert_chain n R r \<Longrightarrow> filter fatal R = []"
  using revert_chain_props [of n R r] by (auto simp: fatal_def filter_empty_conv)

lemma revert_chain_all_reverts:
  "revert_chain n R r \<Longrightarrow> R = pre @ (c, x) # post \<Longrightarrow> c = revert_command"
proof -
  assume a: "revert_chain n R r" "R = pre @ (c, x) # post"
  from revert_chain_props [OF a(1)] have "filter is_revert R = R" by simp
  then have "\<forall>y\<in>set R. is_revert y" by (metis filter_id_conv)
  with a(2) show ?thesis by (auto simp: is_revert_def)
qed

lemma run_shape_cases:
  assumes "run_shape loop tgt R r"
  obtains (switch_failed) x1 R' where "R = (switch_command tgt, x1) # R'" "\<not> ok x1"
      "revert_chain 0 R' r"
  | (update_failed) x1 x2 R' where "R = (switch_command tgt, x1) # (update_command, x2) # R'"
      "ok x1" "\<not> ok x2" "revert_chain 0 R' r"
  | (loop) x1 x2 R' where "R = (switch_command tgt, x1) # (update_command, x2) # R'"
      "ok x1" "ok x2" "loop R' r"
proof -
  from assms obtain c1 x1 c2 x2 R' where R: "R = (c1, x1) # (c2, x2) # R'"
    by (cases "(loop, tgt, R, r)" rule: run_shape.cases) auto
  show thesis
  proof (cases "ok x1")
    case False
    with assms R show thesis by (intro switch_failed [of x1 "(c2, x2) # R'"]) auto
  next
    case True
    with assms R show thesis
      by (cases "ok x2") (auto intro: update_failed loop)
  qed
qed

lemma strict_shape_success:
  "strict_shape src revs R r \<Longrightarrow> filter failed R = [] \<Longrightarrow>
     r = Inr () \<and> map fst R = map (\<lambda>revision. merge_command (str_revision revision) src) revs \<and>
     filter is_revert R = []"
proof (induction src revs R r rule: strict_shape.induct)
  case (3 src revision revs c res R r)
  then show ?case
    by (cases "ok res") auto
qed simp_all

lemma strict_shape_failure:
  "strict_shape src revs R r \<Longrightarrow> filter failed R \<noteq> [] \<Longrightarrow>
     exit_status r = 1 \<and> length (filter failed R) = 1 \<and> is_merge (fst (hd (filter failed R))) \<and>
     map fst R =
       map (\<lambda>revision. merge_command (str_revision revision) src)
         (take (Suc (length (takeWhile (\<lambda>x. ok (snd x)) R))) revs) @
       replicate (length (filter is_revert R)) revert_command \<and>
     length (takeWhile (\<lambda>x. ok (snd x)) R) < length revs \<and>
     length (filter is_revert R) = (if first_ok (filter is_revert R) then 1 else 2) \<and>
     fst (last R) = revert_command"
proof (induction src revs R r rule: strict_shape.induct)
  case (3 src revision revs c res R r)
  show ?case
  proof (cases "ok res")
    case True
    with 3 show ?thesis
      by auto
  next
    case False
    with 3 have "revert_chain (Suc 0) R r" by simp
    from revert_chain_props [OF this] 3 False show ?thesis
      by (cases R) auto
  qed
qed simp_all

lemma strict_shape_order:
  "strict_shape src revs R r \<Longrightarrow>
     prefix (filter is_merge (map fst R)) (map (\<lambda>revision. merge_command (str_revision revision) src) revs) \<and>
     (r = Inr () \<longrightarrow>
      filter is_merge (map fst R) = map (\<lambda>revision. merge_command (str_revision revision) src) revs)"
proof (induction src revs R r rule: strict_shape.induct)
  case (3 src revision revs c res R r)
  show ?case
  proof (cases "ok res")
    case True
    with 3 show ?thesis by auto
  next
    case False
    with 3 have "revert_chain (Suc 0) R r" by simp
    from revert_chain_props [OF this] 3 False show ?thesis by auto
  qed
qed simp_all

lemma strict_run_success:
  assumes "run_shape (strict_shape src revs) tgt R r" and "filter failed R = []"
  shows "r = Inr () \<and>
     map fst R = switch_command tgt # update_command #
       map (\<lambda>revision. merge_command (str_revision revision) src) revs \<and>
     filter is_revert R = []"
  using assms(1)
proof (cases rule: run_shape_cases)
  case (loop x1 x2 R')
  with assms(2) strict_shape_success [of src revs R' r] show ?thesis by simp
qed (use assms(2) in auto)

lemma strict_run_failure:
  assumes "run_shape (strict_shape src revs) tgt R r" and "filter failed R \<noteq> []"
  shows "exit_status r = 1 \<and> length (filter failed R) = 1 \<and>
     map fst R =
       take (Suc (length (takeWhile (\<lambda>x. ok (snd x)) R)))
         (switch_command tgt # update_command #
          map (\<lambda>revision. merge_command (str_revision revision) src) revs) @
       replicate (length (filter is_revert R)) revert_command \<and>
     length (takeWhile (\<lambda>x. ok (snd x)) R) < Suc (Suc (length revs)) \<and>
     length (filter is_revert R) =
       (if is_merge (fst (hd (filter failed R))) \<and> \<not> first_ok (filter is_revert R) then 2 else 1) \<and>
     fst (last R) = revert_command"
  using assms(1)
proof (cases rule: run_shape_cases)
  case (switch_failed x1 R')
  with revert_chain_props [OF switch_failed(3)] show ?thesis
    by (cases R') auto
next
  case (update_failed x1 x2 R')
  with revert_chain_props [OF update_failed(4)] show ?thesis
    by (cases R') auto
next
  case (loop x1 x2 R')
  with assms(2) have "filter failed R' \<noteq> []" by simp
  from strict_shape_failure [OF loop(4) this] loop show ?thesis
    by (auto simp: take_map)
qed

lemma tortoise_shape_success:
  "tortoise_shape src wd revs R r \<Longrightarrow> filter failed R = [] \<Longrightarrow>
     r = Inr () \<and> map fst R = map (\<lambda>revision. merge_command (str_revision revision) src) revs \<and>
     filter is_revert R = []"
  by (induction src wd revs R r rule: tortoise_shape.induct) (auto split: if_splits)

lemma tortoise_shape_fatal:
  "tortoise_shape src wd revs R r \<Longrightarrow>
     (filter fatal R = [] \<longrightarrow>
        r = Inr () \<and> filter is_revert R = [] \<and>
        filter is_merge (map fst R) = map (\<lambda>revision. merge_command (str_revision revision) src) revs) \<and>
     (filter fatal R \<noteq> [] \<longrightarrow> exit_status r = 1 \<and> filter is_revert R \<noteq> [] \<and>
        fst (last R) = revert_command)"
proof (induction src wd revs R r rule: tortoise_shape.induct)
  case (3 src wd revision revs c R r)
  with revert_chain_props [of "Suc 0" R r] show ?case by auto
next
  case (4 src wd revision revs c rc out err R r)
  show ?case
  proof (cases "rc = 0")
    case True
    with 4 show ?thesis by auto
  next
    case False
    with 4 obtain x2 R2 where R: "R = (tortoise_command wd, x2) # R2"
      by (cases R) auto
    show ?thesis
    proof (cases "ok x2")
      case True
      with 4 False R show ?thesis by auto
    next
      case x2: False
      with 4 False R have "revert_chain (Suc (Suc 0)) R2 r" by simp
      from revert_chain_props [OF this] 4 False R x2 show ?thesis by auto
    qed
  qed
qed simp_all

lemma tortoise_shape_order:
  "tortoise_shape src wd revs R r \<Longrightarrow>
     prefix (filter is_merge (map fst R)) (map (\<lambda>revision. merge_command (str_revision revision) src) revs) \<and>
     (r = Inr () \<longrightarrow>
      filter is_merge (map fst R) = map (\<lambda>revision. merge_command (str_revision revision) src) revs)"
proof (induction src wd revs R r rule: tortoise_shape.induct)
  case (3 src wd revision revs c R r)
  with revert_chain_props [of "Suc 0" R r] show ?case by auto
next
  case (4 src wd revision revs c rc out err R r)
  show ?case
  proof (cases "rc = 0")
    case True
    with 4 show ?thesis by auto
  next
    case False
    with 4 obtain x2 R2 where R: "R = (tortoise_command wd, x2) # R2"
      by (cases R) auto
    show ?thesis
    proof (cases "ok x2")
      case True
      with 4 False R show ?thesis by auto
    next
      case x2: False
      with 4 False R have "revert_chain (Suc (Suc 0)) R2 r" by simp
      from revert_chain_props [OF this] 4 False R x2 show ?thesis by auto
    qed
  qed
qed simp_all

lemma tortoise_shape_first_revert:
  "tortoise_shape src wd revs R r \<Longrightarrow> first_ok (filter is_revert R) \<Longrightarrow>
     length (filter is_revert R) = 1 \<and> r = Inl (SystemExit 1)"
proof (induction src wd revs R r rule: tortoise_shape.induct)
  case (3 src wd revision revs c R r)
  with revert_chain_props [of "Suc 0" R r] show ?case by auto
next
  case (4 src wd revision revs c rc out err R r)
  show ?case
  proof (cases "rc = 0")
    case True
    with 4 show ?thesis by auto
  next
    case False
    with 4 obtain x2 R2 where R: "R = (tortoise_command wd, x2) # R2"
      by (cases R) auto
    show ?thesis
    proof (cases "ok x2")
      case True
      with 4 False R show ?thesis by auto
    next
      case x2: False
      with 4 False R have "revert_chain (Suc (Suc 0)) R2 r" by simp
      from revert_chain_props [OF this] 4 False R x2 show ?thesis by auto
    qed
  qed
qed simp_all

lemma tortoise_shape_steps:
  "tortoise_shape src wd revs R r \<Longrightarrow> R = pre @ (c, x) # post \<Longrightarrow>
     (conflict (c, x) \<longrightarrow> post \<noteq> [] \<and> fst (hd post) = tortoise_command wd) \<and>
     (c = tortoise_command wd \<and> \<not> ok x \<longrightarrow>
        post \<noteq> [] \<and> map fst post = replicate (length post) revert_command \<and> exit_status r = 1) \<and>
     (c = tortoise_command wd \<and> ok x \<longrightarrow>
        (if post = [] then r = Inr () \<and> length (filter is_merge (map fst pre)) = length revs
         else length (filter is_merge (map fst pre)) < length revs \<and>
              fst (hd post) =
                merge_command (str_revision (revs ! length (filter is_merge (map fst pre)))) src))"
proof (induction src wd revs R r arbitrary: pre rule: tortoise_shape.induct)
  case (3 src wd revision revs c' R r)
  show ?case
  proof (cases pre)
    case Nil
    with 3 show ?thesis by auto
  next
    case (Cons p pre')
    with 3 have "revert_chain (Suc 0) R r" "R = pre' @ (c, x) # post" by auto
    from revert_chain_all_reverts [OF this] show ?thesis by simp
  qed
next
  case (4 src wd revision revs c' rc out err R r)
  show ?case
  proof (cases "rc = 0")
    case True
    show ?thesis
    proof (cases pre)
      case Nil
      with 4 True show ?thesis by auto
    next
      case (Cons p pre')
      with 4 True have "tortoise_shape src wd revs R r" "R = pre' @ (c, x) # post"
        "p = (c', Exited rc out err)" "c' = merge_command (str_revision revision) src"
        by auto
      with "4.IH"(1) [OF True this(1,2)] Cons show ?thesis
        by (auto split: if_splits)
    qed
  next
    case False
    with 4 obtain x2 R2 where R: "R = (tortoise_command wd, x2) # R2"
      by (cases R) auto
    show ?thesis
    proof (cases pre)
      case Nil
      with 4 False R show ?thesis by auto
    next
      case (Cons p pre')
      note pre = this
      with 4 have p: "p = (c', Exited rc out err)" "c' = merge_command (str_revision revision) src"
        "R = pre' @ (c, x) # post" by auto
      show ?thesis
      proof (cases pre')
        case Nil
        with p R have cx: "c = tortoise_command wd" "x = x2" "post = R2" by auto
        show ?thesis
        proof (cases "ok x2")
          case True
          with 4 False R have sh: "tortoise_shape src wd revs R2 r" by simp
          show ?thesis
          proof (cases revs)
            case Nil
            with sh cx True pre p \<open>pre' = []\<close> show ?thesis by auto
          next
            case (Cons revision' revs')
            with sh obtain y R3 where "R2 = y # R3" by (cases R2) auto
            with sh Cons cx True pre p \<open>pre' = []\<close> show ?thesis
              by (cases y; cases "snd y") auto
          qed
        next
          case x2: False
          with 4 False R have "revert_chain (Suc (Suc 0)) R2 r" by simp
          from revert_chain_props [OF this] cx x2 show ?thesis by auto
        qed
      next
        case (Cons p' pre'')
        with p R have R2: "p' = (tortoise_command wd, x2)" "R2 = pre'' @ (c, x) # post" by auto
        show ?thesis
        proof (cases "ok x2")
          case True
          with 4 False R have sh: "tortoise_shape src wd revs R2 r" by simp
          from "4.IH"(2) [OF False R _ True sh R2(2)] pre Cons p R2 show ?thesis
            by (auto split: if_splits)
        next
          case x2: False
          with 4 False R have "revert_chain (Suc (Suc 0)) R2 r" by simp
          from revert_chain_all_reverts [OF this R2(2)] show ?thesis by simp
        qed
      qed
    qed
  qed
qed simp_all

lemma tortoise_run_success:
  assumes "run_shape (tortoise_shape src wd revs) tgt R r" and "filter failed R = []"
  shows "r = Inr () \<and>
     map fst R = switch_command tgt # update_command #
       map (\<lambda>revision. merge_command (str_revision revision) src) revs \<and>
     filter is_revert R = []"
  using assms(1)
proof (cases rule: run_shape_cases)
  case (loop x1 x2 R')
  with assms(2) tortoise_shape_success [of src wd revs R' r] show ?thesis by simp
qed (use assms(2) in auto)

lemma tortoise_run_fatal:
  assumes "run_shape (tortoise_shape src wd revs) tgt R r"
  shows "(filter fatal R = [] \<longrightarrow>
        r = Inr () \<and> filter is_revert R = [] \<and>
        filter is_merge (map fst R) = map (\<lambda>revision. merge_command (str_revision revision) src) revs) \<and>
     (filter fatal R \<noteq> [] \<longrightarrow> exit_status r = 1 \<and> filter is_revert R \<noteq> [] \<and>
        fst (last R) = revert_command)"
  using assms(1)
proof (cases rule: run_shape_cases)
  case (switch_failed x1 R')
  with revert_chain_props [OF switch_failed(3)] show ?thesis by auto
next
  case (update_failed x1 x2 R')
  with revert_chain_props [OF update_failed(4)] show ?thesis by auto
next
  case (loop x1 x2 R')
  with tortoise_shape_fatal [OF loop(4)] show ?thesis by auto
qed

lemma tortoise_run_first_revert:
  assumes "run_shape (tortoise_shape src wd revs) tgt R r" and "first_ok (filter is_revert R)"
  shows "length (filter is_revert R) = 1 \<and> r = Inl (SystemExit 1)"
  using assms(1)
proof (cases rule: run_shape_cases)
  case (switch_failed x1 R')
  with revert_chain_props [OF switch_failed(3)] assms(2) show ?thesis by auto
next
  case (update_failed x1 x2 R')
  with revert_chain_props [OF update_failed(4)] assms(2) show ?thesis by auto
next
  case (loop x1 x2 R')
  with assms(2) tortoise_shape_first_revert [OF loop(4)] show ?thesis by simp
qed

lemma run_order:
  assumes "run_shape loop tgt R r"
    and "\<And>R'. loop R' r \<Longrightarrow> prefix (filter is_merge (map fst R')) ms \<and>
           (r = Inr () \<longrightarrow> filter is_merge (map fst R') = ms)"
  shows "prefix (filter is_merge (map fst R)) ms \<and> (r = Inr () \<longrightarrow> filter is_merge (map fst R) = ms)"
  using assms(1)
proof (cases rule: run_shape_cases)
  case (switch_failed x1 R')
  with revert_chain_props [OF switch_failed(3)] show ?thesis by auto
next
  case (update_failed x1 x2 R')
  with revert_chain_props [OF update_failed(4)] show ?thesis by auto
next
  case (loop x1 x2 R')
  with assms(2) [OF loop(4)] show ?thesis by simp
qed

lemma tortoise_run_steps:
  assumes "run_shape (tortoise_shape src wd revs) tgt R r" and "R = pre @ (c, x) # post"
  shows "(conflict (c, x) \<longrightarrow> post \<noteq> [] \<and> fst (hd post) = tortoise_command wd) \<and>
     (c = tortoise_command wd \<and> \<not> ok x \<longrightarrow>
        post \<noteq> [] \<and> map fst post = replicate (length post) revert_command \<and> exit_status r = 1) \<and>
     (c = tortoise_command wd \<and> ok x \<longrightarrow>
        (if post = [] then r = Inr () \<and> length (filter is_merge (map fst pre)) = length revs
         else length (filter is_merge (map fst pre)) < length revs \<and>
              fst (hd post) =
                merge_command (str_revision (revs ! length (filter is_merge (map fst pre)))) src))"
  using assms(1)
proof (cases rule: run_shape_cases)
  case (switch_failed x1 R')
  show ?thesis
  proof (cases pre)
    case Nil
    with switch_failed assms(2) show ?thesis by auto
  next
    case (Cons p pre')
    with switch_failed assms(2) have "R' = pre' @ (c, x) # post" by simp
    from revert_chain_all_reverts [OF switch_failed(3) this] show ?thesis by simp
  qed
next
  case (update_failed x1 x2 R')
  show ?thesis
  proof (cases pre)
    case Nil
    with update_failed assms(2) show ?thesis by auto
  next
    case (Cons p pre')
    note pre = this
    show ?thesis
    proof (cases pre')
      case Nil
      with pre update_failed assms(2) show ?thesis by auto
    next
      case (Cons p' pre'')
      with pre update_failed assms(2) have "R' = pre'' @ (c, x) # post" by simp
      from revert_chain_all_reverts [OF update_failed(4) this] show ?thesis by simp
    qed
  qed
next
  case (loop x1 x2 R')
  show ?thesis
  proof (cases pre)
    case Nil
    with loop assms(2) show ?thesis by auto
  next
    case (Cons p pre')
    note pre = this
    show ?thesis
    proof (cases pre')
      case Nil
      with pre loop assms(2) show ?thesis by auto
    next
      case (Cons p' pre'')
      with pre loop assms(2) have e: "R' = pre'' @ (c, x) # post"
        "p = (switch_command tgt, x1)" "p' = (update_command, x2)" by simp_all
      from tortoise_shape_steps [OF loop(4) e(1)] pre Cons e(2,3) show ?thesis
        by (auto split: if_splits)
    qed
  qed
qed

lemma valid_plan_example: "valid_plan plan_example"
  by (simp add: valid_plan_def plan_example_def revisions_of_def)

lemma tortoise_shape_not_started:
  "tortoise_shape src wd revs R r \<Longrightarrow> R = pre @ (c, NotFound) # post \<Longrightarrow> is_merge c \<Longrightarrow>
     post \<noteq> [] \<and> map fst post = replicate (length post) revert_command \<and> exit_status r = 1"
proof (induction src wd revs R r arbitrary: pre rule: tortoise_shape.induct)
  case (3 src wd revision revs c' R r)
  show ?case
  proof (cases pre)
    case Nil
    with 3 have "revert_chain (Suc 0) post r" by simp
    from revert_chain_props [OF this] show ?thesis by simp
  next
    case (Cons p pre')
    with 3 have "revert_chain (Suc 0) R r" "R = pre' @ (c, NotFound) # post" by auto
    from revert_chain_all_reverts [OF this] 3(3) show ?thesis by simp
  qed
next
  case (4 src wd revision revs c' rc out err R r)
  from 4(4) obtain p pre' where pre: "pre = p # pre'" "R = pre' @ (c, NotFound) # post"
    by (cases pre) auto
  show ?case
  proof (cases "rc = 0")
    case True
    with 4 have "tortoise_shape src wd revs R r" by simp
    from "4.IH"(1) [OF True this pre(2) 4(5)] show ?thesis .
  next
    case False
    with 4 obtain x2 R2 where R: "R = (tortoise_command wd, x2) # R2"
      by (cases R) auto
    with pre 4(5) obtain p' pre'' where pre': "pre' = p' # pre''" "R2 = pre'' @ (c, NotFound) # post"
      by (cases pre') auto
    show ?thesis
    proof (cases "ok x2")
      case True
      with 4 False R have sh: "tortoise_shape src wd revs R2 r" by simp
      from "4.IH"(2) [OF False R _ True sh pre'(2) 4(5)] show ?thesis by simp
    next
      case x2: False
      with 4 False R have "revert_chain (Suc (Suc 0)) R2 r" by simp
      from revert_chain_all_reverts [OF this pre'(2)] 4(5) show ?thesis by simp
    qed
  qed
qed simp_all

lemma tortoise_run_not_started:
  assumes "run_shape (tortoise_shape src wd revs) tgt R r" and "R = pre @ (c, NotFound) # post"
    and "is_merge c"
  shows "post \<noteq> [] \<and> map fst post = replicate (length post) revert_command \<and> exit_status r = 1"
  using assms(1)
proof (cases rule: run_shape_cases)
  case (switch_failed x1 R')
  show ?thesis
  proof (cases pre)
    case Nil
    with switch_failed assms(2,3) show ?thesis by auto
  next
    case (Cons p pre')
    with switch_failed assms(2) have "R' = pre' @ (c, NotFound) # post" by simp
    from revert_chain_all_reverts [OF switch_failed(3) this] assms(3) show ?thesis by simp
  qed
next
  case (update_failed x1 x2 R')
  show ?thesis
  proof (cases pre)
    case Nil
    with update_failed assms(2,3) show ?thesis by auto
  next
    case (Cons p pre')
    note pre = this
    show ?thesis
    proof (cases pre')
      case Nil
      with pre update_failed assms(2,3) show ?thesis by auto
    next
      case (Cons p' pre'')
      with pre update_failed assms(2) have "R' = pre'' @ (c, NotFound) # post" by simp
      from revert_chain_all_reverts [OF update_failed(4) this] assms(3) show ?thesis by simp
    qed
  qed
next
  case (loop x1 x2 R')
  show ?thesis
  proof (cases pre)
    case Nil
    with loop assms(2,3) show ?thesis by auto
  next
    case (Cons p pre')
    note pre = this
    show ?thesis
    proof (cases pre')
      case Nil
      with pre loop assms(2,3) show ?thesis by auto
    next
      case (Cons p' pre'')
      with pre loop assms(2) have "R' = pre'' @ (c, NotFound) # post" by simp
      from tortoise_shape_not_started [OF loop(4) this assms(3)] show ?thesis .
    qed
  qed
qed

section \<open>The merge command\<close>

text \<open>
  C7. In both variants the merge operation of a revision invokes the merge command for
  that one revision identifier with \<^verbatim>\<open>--accept theirs-full\<close>: in the strict variant
  it is the only command the operation runs; in the interactive variant it is the first
  command the operation runs, and the only merge command among those it runs.
\<close>

theorem merge_prefers_incoming:
  "runs (snd (svn_merge w revision source_branch working_dir l)) =
     runs l @ [([''svn'', ''merge'', ''-c'', revision, source_branch, ''--accept'', ''theirs-full''],
                w (l @ [Print (Msg_merging revision source_branch)])
                  [''svn'', ''merge'', ''-c'', revision, source_branch, ''--accept'', ''theirs-full'']
                  (Some working_dir))] \<and>
   take (Suc (length (runs l))) (runs (snd (svn_merge_tortoise w revision source_branch working_dir l))) =
     runs l @ [([''svn'', ''merge'', ''-c'', revision, source_branch, ''--accept'', ''theirs-full''],
                w (l @ [Print (Msg_merging revision source_branch)])
                  [''svn'', ''merge'', ''-c'', revision, source_branch, ''--accept'', ''theirs-full'']
                  (Some working_dir))] \<and>
   length (filter is_merge (map fst (runs (snd (svn_merge_tortoise w revision source_branch working_dir l))))) =
     Suc (length (filter is_merge (map fst (runs l))))"
proof -
  obtain tail where t: "runs (snd (svn_merge_tortoise w revision source_branch working_dir l)) =
       runs l @ (merge_command revision source_branch,
                 w (l @ [Print (Msg_merging revision source_branch)])
                   (merge_command revision source_branch) (Some working_dir)) # tail"
     "filter is_merge (map fst tail) = []"
    using svn_merge_tortoise_runs by blast
  have "runs (snd (svn_merge w revision source_branch working_dir l)) =
     runs l @ [(merge_command revision source_branch,
                w (l @ [Print (Msg_merging revision source_branch)])
                  (merge_command revision source_branch) (Some working_dir))]"
    by (simp add: svn_merge_def run_command_unit)
  with t show ?thesis
    by (simp add: merge_command_def [symmetric])
qed

section \<open>The error of a failed command\<close>













section \<open>An invalid configuration\<close>

text \<open>
  C4. When the configuration lacks \<^verbatim>\<open>source_branch\<close>, \<^verbatim>\<open>target_branch\<close> or
  \<^verbatim>\<open>working_dir\<close> (or has it empty), or when its revisions are absent or empty, both
  variants terminate with exit status 1 and no command at all has been invoked.
\<close>

theorem invalid_plan_exits_before_any_command:
  "get_source_branch config \<in> {None, Some []} \<or> get_target_branch config \<in> {None, Some []} \<or>
   get_working_dir config \<in> {None, Some []} \<or> get_revisions config \<in> {None, Some []} \<Longrightarrow>
   exit_status (fst (main w (Parsed config))) = 1 \<and> runs (snd (main w (Parsed config))) = [] \<and>
   exit_status (fst (main_tortoise w (Parsed config))) = 1 \<and>
   runs (snd (main_tortoise w (Parsed config))) = []"
proof -
  assume "get_source_branch config \<in> {None, Some []} \<or> get_target_branch config \<in> {None, Some []} \<or>
   get_working_dir config \<in> {None, Some []} \<or> get_revisions config \<in> {None, Some []}"
  then have "\<not> valid_plan config"
    by (auto simp: valid_plan_def revisions_of_def)
  then show ?thesis
    by (simp add: main_def main_tortoise_def load_config_def)
qed

theorem invalid_plan_exits_before_any_command_witness:
  "get_source_branch plan_no_source = None \<and>
   exit_status (fst (main world_ok (Parsed plan_no_source))) = 1 \<and>
   runs (snd (main world_ok (Parsed plan_no_source))) = [] \<and>
   exit_status (fst (main_tortoise world_ok (Parsed plan_no_source))) = 1 \<and>
   runs (snd (main_tortoise world_ok (Parsed plan_no_source))) = []"
proof -
  have h: "get_source_branch plan_no_source = None"
    by (simp add: plan_no_source_def)
  then have "get_source_branch plan_no_source \<in> {None, Some []} \<or>
     get_target_branch plan_no_source \<in> {None, Some []} \<or>
     get_working_dir plan_no_source \<in> {None, Some []} \<or>
     get_revisions plan_no_source \<in> {None, Some []}"
    by simp
  from invalid_plan_exits_before_any_command [OF this, of world_ok] h show ?thesis
    by simp
qed

section \<open>The example runs\<close>

lemma runs_locked:
  "runs (snd (main world_locked (Parsed plan_example))) =
     [(switch_command ''/trunk'', Exited 0 ''done'' []),
      (update_command, Exited 0 ''done'' []),
      (merge_command ''42'' ''/branches/feature'', Exited 0 ''done'' []),
      (merge_command ''43'' ''/branches/feature'', Exited 1 [] ''conflict''),
      (revert_command, Exited 1 [] ''locked''),
      (revert_command, Exited 1 [] ''locked'')]"
  by code_simp

lemma runs_conflict:
  "runs (snd (main world_conflict (Parsed plan_example))) =
     [(switch_command ''/trunk'', Exited 0 ''done'' []),
      (update_command, Exited 0 ''done'' []),
      (merge_command ''42'' ''/branches/feature'', Exited 0 ''done'' []),
      (merge_command ''43'' ''/branches/feature'', Exited 1 [] ''conflict''),
      (revert_command, Exited 0 ''done'' [])]"
  by code_simp

lemma runs_ok:
  "runs (snd (main world_ok (Parsed plan_example))) =
     [(switch_command ''/trunk'', Exited 0 ''done'' []),
      (update_command, Exited 0 ''done'' []),
      (merge_command ''42'' ''/branches/feature'', Exited 0 ''done'' []),
      (merge_command ''43'' ''/branches/feature'', Exited 0 ''done'' [])]"
  by code_simp

lemma runs_tortoise_ok:
  "runs (snd (main_tortoise world_ok (Parsed plan_example))) =
     [(switch_command ''/trunk'', Exited 0 ''done'' []),
      (update_command, Exited 0 ''done'' []),
      (merge_command ''42'' ''/branches/feature'', Exited 0 ''done'' []),
      (merge_command ''43'' ''/branches/feature'', Exited 0 ''done'' [])]"
  by code_simp

lemma runs_tortoise_conflict:
  "runs (snd (main_tortoise world_conflict (Parsed plan_example))) =
     [(switch_command ''/trunk'', Exited 0 ''done'' []),
      (update_command, Exited 0 ''done'' []),
      (merge_command ''42'' ''/branches/feature'', Exited 0 ''done'' []),
      (merge_command ''43'' ''/branches/feature'', Exited 1 [] ''conflict''),
      (tortoise_command ''/wc'', Exited 0 ''done'' [])]"
  by code_simp

lemma runs_tortoise_missing:
  "runs (snd (main_tortoise world_tool_missing (Parsed plan_example))) =
     [(switch_command ''/trunk'', Exited 0 ''done'' []),
      (update_command, Exited 0 ''done'' []),
      (merge_command ''42'' ''/branches/feature'', Exited 0 ''done'' []),
      (merge_command ''43'' ''/branches/feature'', Exited 1 [] ''conflict''),
      (tortoise_command ''/wc'', NotFound),
      (revert_command, Exited 0 ''done'' [])]"
  by code_simp

lemma plan_example_fields:
  "the (get_source_branch plan_example) = ''/branches/feature''"
  "the (get_target_branch plan_example) = ''/trunk''"
  "the (get_working_dir plan_example) = ''/wc''"
  "revisions_of plan_example = [RevInt 42, RevInt 43]"
  by (simp_all add: plan_example_def revisions_of_def)

lemma runs_unsorted:
  "merges (snd (main world_ok (Parsed plan_unsorted))) =
     [merge_command ''105'' ''/branches/feature'', merge_command ''101'' ''/branches/feature'',
      merge_command ''103'' ''/branches/feature'', merge_command ''101'' ''/branches/feature'']"
  "merges (snd (main_tortoise world_ok (Parsed plan_unsorted))) =
     [merge_command ''105'' ''/branches/feature'', merge_command ''101'' ''/branches/feature'',
      merge_command ''103'' ''/branches/feature'', merge_command ''101'' ''/branches/feature'']"
  "fst (main world_ok (Parsed plan_unsorted)) = Inr ()"
  "fst (main_tortoise world_ok (Parsed plan_unsorted)) = Inr ()"
  by code_simp+

lemma invalid_plan_runs:
  "\<not> valid_plan config \<Longrightarrow> main w (Parsed config) = (Inl (SystemExit 1), [Print Msg_invalid_config])"
  "\<not> valid_plan config \<Longrightarrow>
     main_tortoise w (Parsed config) = (Inl (SystemExit 1), [Print Msg_invalid_config])"
  by (simp_all add: main_def main_tortoise_def load_config_def)

lemma runs_tortoise_not_started:
  "runs (snd (main_tortoise world_merge_not_started (Parsed plan_example))) =
     [(switch_command ''/trunk'', Exited 0 ''done'' []),
      (update_command, Exited 0 ''done'' []),
      (merge_command ''42'' ''/branches/feature'', Exited 0 ''done'' []),
      (merge_command ''43'' ''/branches/feature'', NotFound),
      (revert_command, Exited 0 ''done'' [])]"
  by code_simp

section \<open>A failure in the strict variant\<close>

text \<open>
  C1, as stated, fails: with the plan of the scenarios, when the merge of revision 43
  exits with code 1 and the revert fails as well, the revert is invoked twice, not once.
\<close>

theorem strict_failure_reverts_exactly_once_counterexample:
  "valid_plan plan_example \<and>
   failed_ops (snd (main world_locked (Parsed plan_example))) =
     [(merge_command ''43'' ''/branches/feature'', Exited 1 [] ''conflict'')] \<and>
   reverts (snd (main world_locked (Parsed plan_example))) = 2"
  by code_simp

text \<open>
  C1, amended. Strict variant: for every valid plan, if any operation from the branch
  switch through the merge of revision i fails, then exactly one operation failed, the
  run terminates with exit status 1, the revert is invoked once or twice, exactly once
  when its first invocation succeeds, and no operation for revision i+1 or any later
  revision is attempted: the commands of the run are the planned commands up to the
  failed one, followed by the reverts and nothing else.
\<close>

theorem strict_failure_reverts_and_stops:
  assumes "valid_plan config" and "main w (Parsed config) = (r, l)" and "failed_ops l \<noteq> []"
  shows "exit_status r = 1 \<and> 1 \<le> reverts l \<and> reverts l \<le> 2 \<and>
     (first_revert_ok l \<longrightarrow> reverts l = 1) \<and>
     length (failed_ops l) = 1 \<and>
     map fst (runs l) =
       take (Suc (length (takeWhile (\<lambda>x. ok (snd x)) (runs l)))) (planned_commands config) @
       replicate (reverts l) revert_command"
proof -
  from assms(3) have "filter failed (runs l) \<noteq> []" by (simp add: failed_ops_def)
  from strict_run_failure [OF main_shape [OF assms(1,2)] this] show ?thesis
    by (simp add: failed_ops_def reverts_def first_revert_ok_def planned_commands_def
        merge_commands_def split: if_splits)
qed

theorem strict_failure_reverts_and_stops_witness:
  "valid_plan plan_example \<and>
   failed_ops (snd (main world_conflict (Parsed plan_example))) \<noteq> [] \<and>
   first_revert_ok (snd (main world_conflict (Parsed plan_example))) \<and>
   exit_status (fst (main world_conflict (Parsed plan_example))) = 1 \<and>
   reverts (snd (main world_conflict (Parsed plan_example))) = 1 \<and>
   map fst (runs (snd (main world_conflict (Parsed plan_example)))) =
     take 4 (planned_commands plan_example) @ [revert_command]"
proof -
  have v: "valid_plan plan_example" by (rule valid_plan_example)
  have f: "failed_ops (snd (main world_conflict (Parsed plan_example))) \<noteq> []"
    by (simp add: failed_ops_def runs_conflict)
  have o: "first_revert_ok (snd (main world_conflict (Parsed plan_example)))"
    by (simp add: first_revert_ok_def runs_conflict)
  have k: "Suc (length (takeWhile (\<lambda>x. ok (snd x))
      (runs (snd (main world_conflict (Parsed plan_example)))))) = 4"
    by (simp add: runs_conflict)
  from strict_failure_reverts_and_stops [OF v prod.collapse [symmetric] f] v f o k
  show ?thesis by simp
qed


section \<open>A run where every operation succeeds\<close>

text \<open>
  C2. For every valid plan (which has at least one revision), if every switch, update
  and merge operation of the run succeeds (the log has no failed operation), the run
  returns normally, the exit status is 0, the revert is never invoked, and the commands
  of the run are exactly the planned ones. This holds in both variants.
\<close>

theorem all_operations_succeed:
  assumes "valid_plan config"
  shows "(failed_ops (snd (main w (Parsed config))) = [] \<longrightarrow>
       fst (main w (Parsed config)) = Inr () \<and>
       exit_status (fst (main w (Parsed config))) = 0 \<and>
       reverts (snd (main w (Parsed config))) = 0 \<and>
       map fst (runs (snd (main w (Parsed config)))) = planned_commands config) \<and>
     (failed_ops (snd (main_tortoise w (Parsed config))) = [] \<longrightarrow>
       fst (main_tortoise w (Parsed config)) = Inr () \<and>
       exit_status (fst (main_tortoise w (Parsed config))) = 0 \<and>
       reverts (snd (main_tortoise w (Parsed config))) = 0 \<and>
       map fst (runs (snd (main_tortoise w (Parsed config)))) = planned_commands config)"
proof (intro conjI impI)
  assume "failed_ops (snd (main w (Parsed config))) = []"
  then have "filter failed (runs (snd (main w (Parsed config)))) = []"
    by (simp add: failed_ops_def)
  from strict_run_success [OF main_shape [OF assms prod.collapse [symmetric]] this]
  show "fst (main w (Parsed config)) = Inr ()"
    "exit_status (fst (main w (Parsed config))) = 0"
    "reverts (snd (main w (Parsed config))) = 0"
    "map fst (runs (snd (main w (Parsed config)))) = planned_commands config"
    by (simp_all add: reverts_def planned_commands_def merge_commands_def)
next
  assume "failed_ops (snd (main_tortoise w (Parsed config))) = []"
  then have "filter failed (runs (snd (main_tortoise w (Parsed config)))) = []"
    by (simp add: failed_ops_def)
  from tortoise_run_success [OF main_tortoise_shape [OF assms prod.collapse [symmetric]] this]
  show "fst (main_tortoise w (Parsed config)) = Inr ()"
    "exit_status (fst (main_tortoise w (Parsed config))) = 0"
    "reverts (snd (main_tortoise w (Parsed config))) = 0"
    "map fst (runs (snd (main_tortoise w (Parsed config)))) = planned_commands config"
    by (simp_all add: reverts_def planned_commands_def merge_commands_def)
qed

theorem all_operations_succeed_witness:
  "valid_plan plan_example \<and>
   failed_ops (snd (main world_ok (Parsed plan_example))) = [] \<and>
   failed_ops (snd (main_tortoise world_ok (Parsed plan_example))) = [] \<and>
   fst (main world_ok (Parsed plan_example)) = Inr () \<and>
   exit_status (fst (main world_ok (Parsed plan_example))) = 0 \<and>
   reverts (snd (main world_ok (Parsed plan_example))) = 0 \<and>
   map fst (runs (snd (main world_ok (Parsed plan_example)))) = planned_commands plan_example \<and>
   fst (main_tortoise world_ok (Parsed plan_example)) = Inr () \<and>
   exit_status (fst (main_tortoise world_ok (Parsed plan_example))) = 0 \<and>
   reverts (snd (main_tortoise world_ok (Parsed plan_example))) = 0 \<and>
   map fst (runs (snd (main_tortoise world_ok (Parsed plan_example)))) =
     planned_commands plan_example"
proof -
  have v: "valid_plan plan_example" by (rule valid_plan_example)
  have f: "failed_ops (snd (main world_ok (Parsed plan_example))) = []"
    by (simp add: failed_ops_def runs_ok)
  have g: "failed_ops (snd (main_tortoise world_ok (Parsed plan_example))) = []"
    by (simp add: failed_ops_def runs_tortoise_ok)
  from all_operations_succeed [OF v, of world_ok] v f g show ?thesis by simp
qed

section \<open>The second revert of the strict variant\<close>

text \<open>
  C9. Strict variant: when the merge of a revision fails, the revert is invoked once if
  its first invocation succeeds and twice if it fails (the exception of the first revert
  reaches the outer handler, which reverts again); in both cases the last command of the
  run is a revert and the exit status is 1.
\<close>

theorem failed_revert_is_repeated:
  assumes "valid_plan config" and "main w (Parsed config) = (r, l)"
    and "filter (\<lambda>x. is_merge (fst x)) (failed_ops l) \<noteq> []"
  shows "reverts l = (if first_revert_ok l then 1 else 2) \<and> exit_status r = 1 \<and>
     fst (last (runs l)) = revert_command"
proof -
  from assms(3) have ne: "filter failed (runs l) \<noteq> []"
    by (auto simp: failed_ops_def filter_empty_conv)
  note f = strict_run_failure [OF main_shape [OF assms(1,2)] ne]
  from f have "length (filter failed (runs l)) = 1" by simp
  then obtain y where y: "filter failed (runs l) = [y]"
    by (cases "filter failed (runs l)") auto
  with assms(3) have "is_merge (fst (hd (filter failed (runs l))))"
    by (auto simp: failed_ops_def split: if_splits)
  with f show ?thesis
    by (simp add: reverts_def first_revert_ok_def)
qed

theorem failed_revert_is_repeated_witness:
  "valid_plan plan_example \<and>
   filter (\<lambda>x. is_merge (fst x)) (failed_ops (snd (main world_locked (Parsed plan_example)))) \<noteq> [] \<and>
   \<not> first_revert_ok (snd (main world_locked (Parsed plan_example))) \<and>
   reverts (snd (main world_locked (Parsed plan_example))) = 2 \<and>
   exit_status (fst (main world_locked (Parsed plan_example))) = 1 \<and>
   fst (last (runs (snd (main world_locked (Parsed plan_example))))) = revert_command"
proof -
  have v: "valid_plan plan_example" by (rule valid_plan_example)
  have f: "filter (\<lambda>x. is_merge (fst x))
      (failed_ops (snd (main world_locked (Parsed plan_example)))) \<noteq> []"
    by (simp add: failed_ops_def runs_locked)
  have o: "\<not> first_revert_ok (snd (main world_locked (Parsed plan_example)))"
    by (simp add: first_revert_ok_def runs_locked)
  from failed_revert_is_repeated [OF v prod.collapse [symmetric] f] v f o
  show ?thesis by simp
qed

section \<open>The order of the merges\<close>

text \<open>
  C5. In both variants, for every plan and whatever the commands answer, the merge
  commands of the run are an initial segment of the list that has one merge command per
  entry of the revisions, in the order of the list (nothing is sorted, nothing is
  dropped or deduplicated); when the run returns normally they are that whole list.
\<close>

theorem merges_follow_the_list:
  "prefix (merges (snd (main w (Parsed config)))) (merge_commands config) \<and>
   (fst (main w (Parsed config)) = Inr () \<longrightarrow>
      merges (snd (main w (Parsed config))) = merge_commands config) \<and>
   prefix (merges (snd (main_tortoise w (Parsed config)))) (merge_commands config) \<and>
   (fst (main_tortoise w (Parsed config)) = Inr () \<longrightarrow>
      merges (snd (main_tortoise w (Parsed config))) = merge_commands config)"
proof (cases "valid_plan config")
  case False
  then show ?thesis by (simp add: invalid_plan_runs merges_def)
next
  case True
  have s: "prefix (merges (snd (main w (Parsed config)))) (merge_commands config) \<and>
     (fst (main w (Parsed config)) = Inr () \<longrightarrow>
        merges (snd (main w (Parsed config))) = merge_commands config)"
    unfolding merges_def merge_commands_def
    by (rule run_order [OF main_shape [OF True prod.collapse [symmetric]]])
       (rule strict_shape_order)
  have t: "prefix (merges (snd (main_tortoise w (Parsed config)))) (merge_commands config) \<and>
     (fst (main_tortoise w (Parsed config)) = Inr () \<longrightarrow>
        merges (snd (main_tortoise w (Parsed config))) = merge_commands config)"
    unfolding merges_def merge_commands_def
    by (rule run_order [OF main_tortoise_shape [OF True prod.collapse [symmetric]]])
       (rule tortoise_shape_order)
  from s t show ?thesis by simp
qed

theorem merges_follow_the_list_witness:
  "fst (main world_ok (Parsed plan_unsorted)) = Inr () \<and>
   fst (main_tortoise world_ok (Parsed plan_unsorted)) = Inr () \<and>
   merge_commands plan_unsorted =
     [merge_command ''105'' ''/branches/feature'', merge_command ''101'' ''/branches/feature'',
      merge_command ''103'' ''/branches/feature'', merge_command ''101'' ''/branches/feature''] \<and>
   merges (snd (main world_ok (Parsed plan_unsorted))) = merge_commands plan_unsorted \<and>
   merges (snd (main_tortoise world_ok (Parsed plan_unsorted))) = merge_commands plan_unsorted"
proof -
  have m: "merge_commands plan_unsorted =
     [merge_command ''105'' ''/branches/feature'', merge_command ''101'' ''/branches/feature'',
      merge_command ''103'' ''/branches/feature'', merge_command ''101'' ''/branches/feature'']"
    by code_simp
  from merges_follow_the_list [of world_ok plan_unsorted] runs_unsorted(3,4) m
  show ?thesis by simp
qed


section \<open>The exit status\<close>

text \<open>
  C6, as stated, fails in the interactive variant: with the plan of the scenarios, when
  the merge of revision 43 exits with code 1 and the interactive tool exits with code 0,
  a command has failed and the exit status is 0 all the same.
\<close>

theorem exit_status_counterexample:
  "failed_ops (snd (main_tortoise world_conflict (Parsed plan_example))) =
     [(merge_command ''43'' ''/branches/feature'', Exited 1 [] ''conflict'')] \<and>
   exit_status (fst (main_tortoise world_conflict (Parsed plan_example))) = 0"
  by code_simp

text \<open>
  C6, amended. The exit status of a run is 0 or 1. In the strict variant it is 0 exactly
  when the configuration is valid and no switch, update or merge failed; the commands of
  the run are then the planned ones, every revision merged. In the interactive variant it
  is 0 exactly when the configuration is valid and no operation failed other than merges
  that exited with a non-zero code (each of them was handed to the interactive tool, which
  exited with code 0); a merge command was then run for every revision. It is 1 in every
  other case: the configuration file is absent, not parsable or invalid, or an operation
  failed otherwise and the working copy was rolled back.
\<close>

theorem exit_status_of_a_run:
  "exit_status (fst (main w Absent)) = 1 \<and> exit_status (fst (main w Malformed)) = 1 \<and>
   exit_status (fst (main_tortoise w Absent)) = 1 \<and>
   exit_status (fst (main_tortoise w Malformed)) = 1 \<and>
   exit_status (fst (main w (Parsed config))) =
     (if valid_plan config \<and> failed_ops (snd (main w (Parsed config))) = [] then 0 else 1) \<and>
   exit_status (fst (main_tortoise w (Parsed config))) =
     (if valid_plan config \<and> fatal_ops (snd (main_tortoise w (Parsed config))) = [] then 0 else 1) \<and>
   (exit_status (fst (main w (Parsed config))) = 0 \<longrightarrow>
      map fst (runs (snd (main w (Parsed config)))) = planned_commands config) \<and>
   (exit_status (fst (main_tortoise w (Parsed config))) = 0 \<longrightarrow>
      merges (snd (main_tortoise w (Parsed config))) = merge_commands config)"
proof -
  have a: "exit_status (fst (main w Absent)) = 1" "exit_status (fst (main w Malformed)) = 1"
    "exit_status (fst (main_tortoise w Absent)) = 1"
    "exit_status (fst (main_tortoise w Malformed)) = 1"
    by (simp_all add: main_def main_tortoise_def load_config_def)
  have s: "exit_status (fst (main w (Parsed config))) =
     (if valid_plan config \<and> failed_ops (snd (main w (Parsed config))) = [] then 0 else 1) \<and>
     (exit_status (fst (main w (Parsed config))) = 0 \<longrightarrow>
        map fst (runs (snd (main w (Parsed config)))) = planned_commands config)"
  proof (cases "valid_plan config")
    case False
    then show ?thesis by (simp add: invalid_plan_runs)
  next
    case True
    note sh = main_shape [OF True prod.collapse [symmetric], of w]
    show ?thesis
    proof (cases "filter failed (runs (snd (main w (Parsed config)))) = []")
      case True
      from strict_run_success [OF sh True] True \<open>valid_plan config\<close> show ?thesis
        by (simp add: failed_ops_def planned_commands_def merge_commands_def)
    next
      case False
      from strict_run_failure [OF sh False] False show ?thesis
        by (simp add: failed_ops_def)
    qed
  qed
  have t: "exit_status (fst (main_tortoise w (Parsed config))) =
     (if valid_plan config \<and> fatal_ops (snd (main_tortoise w (Parsed config))) = [] then 0 else 1) \<and>
     (exit_status (fst (main_tortoise w (Parsed config))) = 0 \<longrightarrow>
        merges (snd (main_tortoise w (Parsed config))) = merge_commands config)"
  proof (cases "valid_plan config")
    case False
    then show ?thesis by (simp add: invalid_plan_runs)
  next
    case True
    from tortoise_run_fatal [OF main_tortoise_shape [OF True prod.collapse [symmetric], of w]] True
    show ?thesis
      by (cases "filter fatal (runs (snd (main_tortoise w (Parsed config)))) = []")
         (simp_all add: fatal_ops_def merges_def merge_commands_def)
  qed
  from a s t show ?thesis by simp
qed

theorem exit_status_of_a_run_witness:
  "exit_status (fst (main world_ok (Parsed plan_example))) = 0 \<and>
   exit_status (fst (main_tortoise world_conflict (Parsed plan_example))) = 0 \<and>
   map fst (runs (snd (main world_ok (Parsed plan_example)))) = planned_commands plan_example \<and>
   merges (snd (main_tortoise world_conflict (Parsed plan_example))) = merge_commands plan_example \<and>
   exit_status (fst (main world_conflict (Parsed plan_example))) = 1 \<and>
   exit_status (fst (main_tortoise world_tool_missing (Parsed plan_example))) = 1"
proof -
  have a: "exit_status (fst (main world_ok (Parsed plan_example))) = 0"
    "exit_status (fst (main_tortoise world_conflict (Parsed plan_example))) = 0"
    "exit_status (fst (main world_conflict (Parsed plan_example))) = 1"
    "exit_status (fst (main_tortoise world_tool_missing (Parsed plan_example))) = 1"
    by code_simp+
  from exit_status_of_a_run [of world_ok plan_example]
    exit_status_of_a_run [of world_conflict plan_example] a
  show ?thesis by simp
qed


section \<open>The hand-off to the interactive tool\<close>

text \<open>
  C3, as stated, fails: not every failed merge is handed to the interactive tool. With
  the plan of the scenarios, when the merge of revision 43 cannot be started, the merge
  has failed, the tool is never run, the working copy is reverted and the run is over.
\<close>

theorem hand_off_counterexample:
  "failed_ops (snd (main_tortoise world_merge_not_started (Parsed plan_example))) =
     [(merge_command ''43'' ''/branches/feature'', NotFound)] \<and>
   map fst (runs (snd (main_tortoise world_merge_not_started (Parsed plan_example)))) =
     [switch_command ''/trunk'', update_command, merge_command ''42'' ''/branches/feature'',
      merge_command ''43'' ''/branches/feature'', revert_command] \<and>
   filter (\<lambda>c. c = tortoise_command ''/wc'')
     (map fst (runs (snd (main_tortoise world_merge_not_started (Parsed plan_example))))) = [] \<and>
   exit_status (fst (main_tortoise world_merge_not_started (Parsed plan_example))) = 1"
  by code_simp

text \<open>
  C3, amended. Interactive variant, for every valid plan and every command of the run (the
  log is split at it). When the command is a merge that exited with a non-zero code, the
  next command of the run is the interactive tool. When the command is a merge that could
  not be started, it is not handed to the tool: only reverts follow, at least one, and the
  exit status is 1. When the command is the tool and it is unavailable or exits with a
  non-zero code, only reverts follow, at least one, and the exit status is 1. When the
  command is the tool and it exits with code 0, the loop proceeds: either nothing follows
  and the run returns normally, all revisions done, or the next command is the merge of
  the next revision. And when no operation of the run failed other than merges that exited
  with a non-zero code (each was handed to the tool, which exited with code 0), the run
  returns normally, its last output is the message that all revisions were processed, a
  merge was run for every revision and nothing was reverted.
\<close>

theorem interactive_hand_off:
  assumes "valid_plan config" and "main_tortoise w (Parsed config) = (r, l)"
    and "runs l = pre @ (c, x) # post"
  shows "(conflict (c, x) \<longrightarrow>
        post \<noteq> [] \<and> fst (hd post) = tortoise_command (the (get_working_dir config))) \<and>
     (is_merge c \<and> x = NotFound \<longrightarrow>
        post \<noteq> [] \<and> map fst post = replicate (length post) revert_command \<and>
        exit_status r = 1) \<and>
     (c = tortoise_command (the (get_working_dir config)) \<and> \<not> ok x \<longrightarrow>
        post \<noteq> [] \<and> map fst post = replicate (length post) revert_command \<and>
        exit_status r = 1) \<and>
     (c = tortoise_command (the (get_working_dir config)) \<and> ok x \<longrightarrow>
        (if post = [] then r = Inr () \<and> length (filter is_merge (map fst pre)) = length (revisions_of config)
         else length (filter is_merge (map fst pre)) < length (revisions_of config) \<and>
              fst (hd post) = merge_commands config ! length (filter is_merge (map fst pre)))) \<and>
     (fatal_ops l = [] \<longrightarrow>
        r = Inr () \<and> last l = Print Msg_all_processed \<and> merges l = merge_commands config \<and>
        reverts l = 0)"
proof -
  note sh = main_tortoise_shape [OF assms(1,2)]
  note st = tortoise_run_steps [OF sh assms(3)]
  have "fatal_ops l = [] \<longrightarrow>
        r = Inr () \<and> last l = Print Msg_all_processed \<and> merges l = merge_commands config \<and>
        reverts l = 0"
  proof
    assume "fatal_ops l = []"
    with tortoise_run_fatal [OF sh] have f: "r = Inr ()" "merges l = merge_commands config"
      "reverts l = 0"
      by (simp_all add: fatal_ops_def merges_def merge_commands_def reverts_def)
    from assms(1,2) f(1) have "run_tortoise w (the (get_source_branch config))
        (the (get_target_branch config)) (the (get_working_dir config)) (revisions_of config) [] =
        (Inr (), l)"
      by (simp add: main_tortoise_def load_config_def)
    from run_tortoise_reports [OF this] f
    show "r = Inr () \<and> last l = Print Msg_all_processed \<and> merges l = merge_commands config \<and>
        reverts l = 0"
      by simp
  qed
  moreover have "is_merge c \<and> x = NotFound \<longrightarrow>
        post \<noteq> [] \<and> map fst post = replicate (length post) revert_command \<and>
        exit_status r = 1"
  proof
    assume a: "is_merge c \<and> x = NotFound"
    with assms(3) have "runs l = pre @ (c, NotFound) # post" by simp
    from tortoise_run_not_started [OF sh this] a
    show "post \<noteq> [] \<and> map fst post = replicate (length post) revert_command \<and>
        exit_status r = 1"
      by simp
  qed
  ultimately show ?thesis using st
    by (auto simp: merge_commands_def split: if_splits)
qed

theorem interactive_hand_off_witness:
  "valid_plan plan_example \<and>
   runs (snd (main_tortoise world_conflict (Parsed plan_example))) =
     [(switch_command ''/trunk'', Exited 0 ''done'' []), (update_command, Exited 0 ''done'' []),
      (merge_command ''42'' ''/branches/feature'', Exited 0 ''done'' [])] @
     (merge_command ''43'' ''/branches/feature'', Exited 1 [] ''conflict'') #
     [(tortoise_command ''/wc'', Exited 0 ''done'' [])] \<and>
   conflict (merge_command ''43'' ''/branches/feature'', Exited 1 [] ''conflict'') \<and>
   fst (hd [(tortoise_command ''/wc'', Exited 0 ''done'' [])]) =
     tortoise_command (the (get_working_dir plan_example)) \<and>
   fatal_ops (snd (main_tortoise world_conflict (Parsed plan_example))) = [] \<and>
   fst (main_tortoise world_conflict (Parsed plan_example)) = Inr () \<and>
   last (snd (main_tortoise world_conflict (Parsed plan_example))) = Print Msg_all_processed \<and>
   merges (snd (main_tortoise world_conflict (Parsed plan_example))) = merge_commands plan_example \<and>
   reverts (snd (main_tortoise world_conflict (Parsed plan_example))) = 0 \<and>
   runs (snd (main_tortoise world_tool_missing (Parsed plan_example))) =
     [(switch_command ''/trunk'', Exited 0 ''done'' []), (update_command, Exited 0 ''done'' []),
      (merge_command ''42'' ''/branches/feature'', Exited 0 ''done'' []),
      (merge_command ''43'' ''/branches/feature'', Exited 1 [] ''conflict'')] @
     (tortoise_command ''/wc'', NotFound) # [(revert_command, Exited 0 ''done'' [])] \<and>
   \<not> ok NotFound \<and>
   exit_status (fst (main_tortoise world_tool_missing (Parsed plan_example))) = 1 \<and>
   runs (snd (main_tortoise world_conflict (Parsed plan_example))) =
     [(switch_command ''/trunk'', Exited 0 ''done'' []), (update_command, Exited 0 ''done'' []),
      (merge_command ''42'' ''/branches/feature'', Exited 0 ''done'' []),
      (merge_command ''43'' ''/branches/feature'', Exited 1 [] ''conflict'')] @
     (tortoise_command ''/wc'', Exited 0 ''done'' []) # [] \<and>
   ok (Exited 0 ''done'' []) \<and>
   length (filter is_merge (map fst
     [(switch_command ''/trunk'', Exited 0 ''done'' []), (update_command, Exited 0 ''done'' []),
      (merge_command ''42'' ''/branches/feature'', Exited 0 ''done'' []),
      (merge_command ''43'' ''/branches/feature'', Exited 1 [] ''conflict'')])) =
     length (revisions_of plan_example) \<and>
   runs (snd (main_tortoise world_merge_not_started (Parsed plan_example))) =
     [(switch_command ''/trunk'', Exited 0 ''done'' []), (update_command, Exited 0 ''done'' []),
      (merge_command ''42'' ''/branches/feature'', Exited 0 ''done'' [])] @
     (merge_command ''43'' ''/branches/feature'', NotFound) #
     [(revert_command, Exited 0 ''done'' [])] \<and>
   is_merge (merge_command ''43'' ''/branches/feature'') \<and>
   exit_status (fst (main_tortoise world_merge_not_started (Parsed plan_example))) = 1"
proof -
  have v: "valid_plan plan_example" by (rule valid_plan_example)
  have wd: "tortoise_command (the (get_working_dir plan_example)) = tortoise_command ''/wc''"
    by (simp add: plan_example_fields)
  have r1: "runs (snd (main_tortoise world_conflict (Parsed plan_example))) =
     [(switch_command ''/trunk'', Exited 0 ''done'' []), (update_command, Exited 0 ''done'' []),
      (merge_command ''42'' ''/branches/feature'', Exited 0 ''done'' [])] @
     (merge_command ''43'' ''/branches/feature'', Exited 1 [] ''conflict'') #
     [(tortoise_command ''/wc'', Exited 0 ''done'' [])]"
    by (simp add: runs_tortoise_conflict)
  have r2: "runs (snd (main_tortoise world_tool_missing (Parsed plan_example))) =
     [(switch_command ''/trunk'', Exited 0 ''done'' []), (update_command, Exited 0 ''done'' []),
      (merge_command ''42'' ''/branches/feature'', Exited 0 ''done'' []),
      (merge_command ''43'' ''/branches/feature'', Exited 1 [] ''conflict'')] @
     (tortoise_command ''/wc'', NotFound) # [(revert_command, Exited 0 ''done'' [])]"
    by (simp add: runs_tortoise_missing)
  have r3: "runs (snd (main_tortoise world_conflict (Parsed plan_example))) =
     [(switch_command ''/trunk'', Exited 0 ''done'' []), (update_command, Exited 0 ''done'' []),
      (merge_command ''42'' ''/branches/feature'', Exited 0 ''done'' []),
      (merge_command ''43'' ''/branches/feature'', Exited 1 [] ''conflict'')] @
     (tortoise_command ''/wc'', Exited 0 ''done'' []) # []"
    by (simp add: runs_tortoise_conflict)
  have r4: "runs (snd (main_tortoise world_merge_not_started (Parsed plan_example))) =
     [(switch_command ''/trunk'', Exited 0 ''done'' []), (update_command, Exited 0 ''done'' []),
      (merge_command ''42'' ''/branches/feature'', Exited 0 ''done'' [])] @
     (merge_command ''43'' ''/branches/feature'', NotFound) #
     [(revert_command, Exited 0 ''done'' [])]"
    by (simp add: runs_tortoise_not_started)
  have c: "conflict (merge_command ''43'' ''/branches/feature'', Exited 1 [] ''conflict'')"
    by simp
  have f: "fatal_ops (snd (main_tortoise world_conflict (Parsed plan_example))) = []"
    by (simp add: fatal_ops_def runs_tortoise_conflict)
  from interactive_hand_off [OF v prod.collapse [symmetric] r1]
    interactive_hand_off [OF v prod.collapse [symmetric] r2]
    interactive_hand_off [OF v prod.collapse [symmetric] r3]
    interactive_hand_off [OF v prod.collapse [symmetric] r4] v wd r1 r2 r3 r4 c f
  show ?thesis by (simp add: plan_example_fields)
qed

section \<open>The revert after a failure of the interactive tool\<close>

text \<open>
  C10. Interactive variant: for every valid plan, when the interactive tool is
  unavailable or exits with a non-zero code and the revert that follows succeeds, the
  revert is invoked exactly once and the run ends with \<^verbatim>\<open>SystemExit(1)\<close>, exit status
  1: no handler of \<^verbatim>\<open>main\<close> catches that exit, so there is no second revert. The
  failed tool and the revert are the last two commands of the run.
\<close>

theorem tool_failure_reverts_once:
  assumes "valid_plan config" and "main_tortoise w (Parsed config) = (r, l)"
    and "filter (\<lambda>x. fst x = tortoise_command (the (get_working_dir config))) (failed_ops l) \<noteq> []"
    and "first_revert_ok l"
  shows "reverts l = 1 \<and> r = Inl (SystemExit 1) \<and> exit_status r = 1 \<and>
     (\<exists>pre x y. runs l = pre @ [(tortoise_command (the (get_working_dir config)), x),
                                  (revert_command, y)] \<and> \<not> ok x \<and> ok y)"
proof -
  note sh = main_tortoise_shape [OF assms(1,2)]
  from tortoise_run_first_revert [OF sh] assms(4)
  have one: "length (filter is_revert (runs l)) = 1" "r = Inl (SystemExit 1)"
    by (simp_all add: first_revert_ok_def)
  from assms(3) obtain c x where cx: "(c, x) \<in> set (runs l)"
    "c = tortoise_command (the (get_working_dir config))" "\<not> ok x"
    by (auto simp: failed_ops_def filter_empty_conv failed_def)
  then obtain pre post where split: "runs l = pre @ (c, x) # post"
    by (auto dest: split_list)
  from tortoise_run_steps [OF sh split] cx
  have post: "post \<noteq> []" "map fst post = replicate (length post) revert_command"
    by simp_all
  then have "filter is_revert post = post"
    by (metis (no_types, lifting) filter_True in_set_replicate is_revert_def list.set_map imageI)
  with one(1) split cx(2) have "length (filter is_revert pre) + length post = 1"
    by simp
  with post(1) have "length post = 1" by (cases post) auto
  then obtain c' y where p: "post = [(c', y)]"
    by (cases post) auto
  with post(2) have c': "c' = revert_command" by simp
  from assms(4) split p c' cx(2) \<open>length (filter is_revert pre) + length post = 1\<close>
  have "ok y"
    by (simp add: first_revert_ok_def)
  with split p c' cx one show ?thesis
    by (simp add: reverts_def)
qed

theorem tool_failure_reverts_once_witness:
  "valid_plan plan_example \<and>
   filter (\<lambda>x. fst x = tortoise_command (the (get_working_dir plan_example)))
     (failed_ops (snd (main_tortoise world_tool_missing (Parsed plan_example)))) \<noteq> [] \<and>
   first_revert_ok (snd (main_tortoise world_tool_missing (Parsed plan_example))) \<and>
   reverts (snd (main_tortoise world_tool_missing (Parsed plan_example))) = 1 \<and>
   fst (main_tortoise world_tool_missing (Parsed plan_example)) = Inl (SystemExit 1) \<and>
   exit_status (fst (main_tortoise world_tool_missing (Parsed plan_example))) = 1"
proof -
  have v: "valid_plan plan_example" by (rule valid_plan_example)
  have f: "filter (\<lambda>x. fst x = tortoise_command (the (get_working_dir plan_example)))
     (failed_ops (snd (main_tortoise world_tool_missing (Parsed plan_example)))) \<noteq> []"
    by (simp add: failed_ops_def runs_tortoise_missing plan_example_fields)
  have o: "first_revert_ok (snd (main_tortoise world_tool_missing (Parsed plan_example)))"
    by (simp add: first_revert_ok_def runs_tortoise_missing)
  from tool_failure_reverts_once [OF v prod.collapse [symmetric] f o] v f o
  show ?thesis by simp
qed

end
